theory Spec2Isabelle
  imports Main "HOL-Library.AList"
begin

section \<open>Python values, exceptions and the library functions the parser calls\<close>

text \<open>
  The parser handles dynamically typed values: cells of a pandas row, the result of
  \<^verbatim>\<open>ast.literal_eval\<close>, the content of a JSON file. They are modelled by one
  datatype. A dictionary is an association list in insertion order. The code never
  computes with a float, it only carries it, so the float type is a parameter.
\<close>

datatype 'f pyval =
    PNone
  | PBool bool
  | PInt int
  | PFloat 'f
  | PStr string
  | PList "'f pyval list"
  | PDict "('f pyval \<times> 'f pyval) list"

datatype py_error =
    KeyError | ValueError | SyntaxError | AttributeError | TypeError | IndexError
  | FileNotFoundError | EmptyDataError | OtherError

subsection \<open>A line of the history file most\_recent\_matches.csv\<close>

text \<open>
  One line of the file, with the columns \<^verbatim>\<open>update_most_recent_matches\<close> writes. The
  cells of the columns \<^verbatim>\<open>matchId\<close>, \<^verbatim>\<open>club_id\<close>, \<^verbatim>\<open>player_id\<close>,
  \<^verbatim>\<open>player_name\<close> and \<^verbatim>\<open>position\<close> are Python values: the source writes strings
  there, and \<^verbatim>\<open>pd.read_csv\<close> gives a column the type it infers from its text, so a
  column of digits comes back as integers.
\<close>

record 'f HistoryEntry =
  h_matchId :: "'f pyval"
  h_timestamp :: string
  h_timeAgo :: string
  h_club_id :: "'f pyval"
  h_player_id :: "'f pyval"
  h_player_name :: "'f pyval"
  h_position :: "'f pyval"
  h_rating :: 'f
  h_goals :: int
  h_assists :: int
  h_shots :: int
  h_passes :: int
  h_pass_attempts :: int
  h_tackles :: int
  h_tackle_attempts :: int
  h_saves :: int
  h_seconds_played :: int
  h_score :: int
  h_redcards :: int

text \<open>
  The history file as the program finds it at the start of a call. It is absent, or it
  holds the header line and the lines of a table, or it is the file that
  \<^verbatim>\<open>to_csv\<close> writes for a data frame without columns: one empty line and no header,
  on which \<^verbatim>\<open>pd.read_csv\<close> raises \<^verbatim>\<open>EmptyDataError\<close>. The source builds such a
  data frame, \<^verbatim>\<open>pd.DataFrame([])\<close>, when no parsed match has a player.
\<close>

datatype 'a history_file = No_file | Blank_file | Table_file "'a list"

text \<open>
  What the path of the history file holds at one moment of a write: a file as above,
  whole; or nothing, the file being opened for writing and no text flushed yet; or a
  part of the text being written.
\<close>

datatype 'a disk_file = Intact "'a history_file" | Emptied | Cut_short

subsection \<open>Library functions\<close>

text \<open>
  The functions of the Python library and of pandas that the source calls and whose
  code is not part of the repository are parameters of the model:
  \<^verbatim>\<open>ast.literal_eval\<close>, \<^verbatim>\<open>repr\<close> of a float, list or dictionary,
  \<^verbatim>\<open>int()\<close>, \<^verbatim>\<open>float()\<close>, \<^verbatim>\<open>json.dump\<close> followed by
  \<^verbatim>\<open>json.load\<close>, \<^verbatim>\<open>DataFrame.to_csv\<close> followed by \<^verbatim>\<open>pd.read_csv\<close>
  on the history file (\<open>csv_read_back\<close>: the table read from the file that holds a
  written table), and the write of \<^verbatim>\<open>DataFrame.to_csv\<close> itself
  (\<open>to_csv_states\<close>: what the path holds, in order, from the moment the call opens
  the file to the moment it returns, given the file the call is writing).
\<close>

record 'f pylib =
  literal_eval :: "string \<Rightarrow> py_error + 'f pyval"
  py_repr :: "'f pyval \<Rightarrow> string"
  py_int :: "'f pyval \<Rightarrow> py_error + int"
  py_float :: "'f pyval \<Rightarrow> py_error + 'f"
  json_dump_load :: "'f pyval \<Rightarrow> py_error + 'f pyval"
  csv_read_back :: "'f HistoryEntry list \<Rightarrow> 'f HistoryEntry list"
  to_csv_states :: "'f HistoryEntry history_file \<Rightarrow> 'f HistoryEntry disk_file list"

text \<open>A raised exception leaves the enclosing computation: the rest is skipped.\<close>

definition ebind :: "'e + 'a \<Rightarrow> ('a \<Rightarrow> 'e + 'b) \<Rightarrow> 'e + 'b" where
  "ebind m f = (case m of Inl e \<Rightarrow> Inl e | Inr x \<Rightarrow> f x)"

subsection \<open>\<^verbatim>\<open>str()\<close>\<close>

definition digit_char :: "nat \<Rightarrow> char" where
  "digit_char d = ''0123456789'' ! d"

fun str_nat :: "nat \<Rightarrow> string" where
  "str_nat n = (if n < 10 then [digit_char n] else str_nat (n div 10) @ [digit_char (n mod 10)])"

declare str_nat.simps [simp del]

definition str_int :: "int \<Rightarrow> string" where
  "str_int i = (if i < 0 then CHR ''-'' # str_nat (nat (- i)) else str_nat (nat i))"

text \<open>
  \<^verbatim>\<open>str(v)\<close>: a string is returned as it is, an integer in decimal; the text of a
  float, a list or a dictionary is the library's.
\<close>

definition py_str :: "'f pylib \<Rightarrow> 'f pyval \<Rightarrow> string" where
  "py_str L v =
     (case v of
        PStr s \<Rightarrow> s
      | PInt n \<Rightarrow> str_int n
      | PNone \<Rightarrow> ''None''
      | PBool b \<Rightarrow> (if b then ''True'' else ''False'')
      | _ \<Rightarrow> py_repr L v)"

subsection \<open>Dictionaries, subscripts and iteration\<close>

text \<open>\<^verbatim>\<open>d.get(k, default)\<close> and \<^verbatim>\<open>d.items()\<close>; both raise AttributeError on a
  value that is not a dictionary.\<close>

definition py_get :: "'f pyval \<Rightarrow> 'f pyval \<Rightarrow> 'f pyval \<Rightarrow> py_error + 'f pyval" where
  "py_get d k dflt =
     (case d of
        PDict items \<Rightarrow> (case map_of items k of None \<Rightarrow> Inr dflt | Some v \<Rightarrow> Inr v)
      | _ \<Rightarrow> Inl AttributeError)"

definition py_items :: "'f pyval \<Rightarrow> py_error + ('f pyval \<times> 'f pyval) list" where
  "py_items d = (case d of PDict items \<Rightarrow> Inr items | _ \<Rightarrow> Inl AttributeError)"

section \<open>The data classes of Match\_Parser.py\<close>

record 'f PlayerStats =
  player_id :: "'f pyval"
  player_name :: "'f pyval"
  club_id :: "'f pyval"
  position :: "'f pyval"
  archetype_id :: "'f pyval"
  rating :: 'f
  goals :: int
  assists :: int
  shots :: int
  passes :: int
  pass_attempts :: int
  tackles :: int
  tackle_attempts :: int
  saves :: int
  seconds_played :: int
  score :: int
  wins :: int
  losses :: int
  redcards :: int
  user_result :: int

record 'f MatchData =
  match_id :: string
  timestamp :: string
  time_ago :: string
  players_by_club :: "('f pyval \<times> 'f PlayerStats list) list"

record 'f MostRecentMatch =
  mr_match_id :: string
  mr_timestamp :: string
  mr_time_ago :: string
  mr_players :: "'f PlayerStats list"
  is_new :: bool

text \<open>
  The state of a \<^verbatim>\<open>MatchPlayerParser\<close> object. Its two file paths never change
  (\<^verbatim>\<open>club_matches.csv\<close> and \<^verbatim>\<open>most_recent_matches.csv\<close>); the files they name
  are arguments of the functions that read or write them.
\<close>

record 'f MatchPlayerParser =
  matches :: "'f MatchData list"
  most_recent_match :: "'f MostRecentMatch option"
  new_matches_detected :: bool

definition init_parser :: "'f MatchPlayerParser" where
  "init_parser = \<lparr>matches = [], most_recent_match = None, new_matches_detected = False\<rparr>"

section \<open>\<^verbatim>\<open>_parse_match_row\<close>\<close>

text \<open>A row of the data frame maps a column name to a cell; a missing column raises
  KeyError.\<close>

type_synonym 'f row = "string \<rightharpoonup> 'f pyval"

definition row_get :: "'f row \<Rightarrow> string \<Rightarrow> py_error + 'f pyval" where
  "row_get row c = (case row c of None \<Rightarrow> Inl KeyError | Some v \<Rightarrow> Inr v)"

text \<open>The constructor call \<^verbatim>\<open>PlayerStats(...)\<close>: its arguments are evaluated in
  the order written, and the first conversion that raises ends the row.\<close>

definition parse_player ::
  "'f pylib \<Rightarrow> 'f pyval \<Rightarrow> 'f pyval \<Rightarrow> 'f pyval \<Rightarrow> py_error + 'f PlayerStats" where
  "parse_player L cid pid st =
     ebind (py_get st (PStr ''playername'') (PStr ''Unknown'')) (\<lambda>v_name.
     ebind (py_get st (PStr ''pos'') (PStr ''Unknown'')) (\<lambda>v_pos.
     ebind (py_get st (PStr ''archetypeid'') (PStr ''0'')) (\<lambda>v_arch.
     ebind (ebind (py_get st (PStr ''rating'') (PInt 0)) (py_float L)) (\<lambda>v_rating.
     ebind (ebind (py_get st (PStr ''goals'') (PInt 0)) (py_int L)) (\<lambda>v_goals.
     ebind (ebind (py_get st (PStr ''assists'') (PInt 0)) (py_int L)) (\<lambda>v_assists.
     ebind (ebind (py_get st (PStr ''shots'') (PInt 0)) (py_int L)) (\<lambda>v_shots.
     ebind (ebind (py_get st (PStr ''passesmade'') (PInt 0)) (py_int L)) (\<lambda>v_passes.
     ebind (ebind (py_get st (PStr ''passattempts'') (PInt 0)) (py_int L)) (\<lambda>v_pass_attempts.
     ebind (ebind (py_get st (PStr ''tacklesmade'') (PInt 0)) (py_int L)) (\<lambda>v_tackles.
     ebind (ebind (py_get st (PStr ''tackleattempts'') (PInt 0)) (py_int L)) (\<lambda>v_tackle_attempts.
     ebind (ebind (py_get st (PStr ''saves'') (PInt 0)) (py_int L)) (\<lambda>v_saves.
     ebind (ebind (py_get st (PStr ''secondsPlayed'') (PInt 0)) (py_int L)) (\<lambda>v_seconds.
     ebind (ebind (py_get st (PStr ''SCORE'') (PInt 0)) (py_int L)) (\<lambda>v_score.
     ebind (ebind (py_get st (PStr ''wins'') (PInt 0)) (py_int L)) (\<lambda>v_wins.
     ebind (ebind (py_get st (PStr ''losses'') (PInt 0)) (py_int L)) (\<lambda>v_losses.
     ebind (ebind (py_get st (PStr ''redcards'') (PInt 0)) (py_int L)) (\<lambda>v_redcards.
     ebind (ebind (py_get st (PStr ''userResult'') (PInt 0)) (py_int L)) (\<lambda>v_user_result.
     Inr \<lparr>player_id = pid, player_name = v_name, club_id = cid, position = v_pos,
          archetype_id = v_arch, rating = v_rating, goals = v_goals, assists = v_assists,
          shots = v_shots, passes = v_passes, pass_attempts = v_pass_attempts,
          tackles = v_tackles, tackle_attempts = v_tackle_attempts, saves = v_saves,
          seconds_played = v_seconds, score = v_score, wins = v_wins, losses = v_losses,
          redcards = v_redcards, user_result = v_user_result\<rparr>))))))))))))))))))"

text \<open>The inner loop \<^verbatim>\<open>for player_id, player_stats in club_players.items()\<close>;
  \<open>acc\<close> is the list \<^verbatim>\<open>players_by_club[club_id]\<close> built so far.\<close>

fun parse_club_players ::
  "'f pylib \<Rightarrow> 'f pyval \<Rightarrow> ('f pyval \<times> 'f pyval) list \<Rightarrow> 'f PlayerStats list
     \<Rightarrow> py_error + 'f PlayerStats list" where
  "parse_club_players L cid [] acc = Inr acc"
| "parse_club_players L cid ((pid, st) # rest) acc =
     (case parse_player L cid pid st of
        Inl e \<Rightarrow> Inl e
      | Inr pl \<Rightarrow> parse_club_players L cid rest (acc @ [pl]))"

text \<open>The outer loop \<^verbatim>\<open>for club_id, club_players in players_data.items()\<close>;
  \<open>pbc\<close> is the dictionary \<^verbatim>\<open>players_by_club\<close> built so far. Assigning to a key
  of a dictionary keeps the key's place if it is there and appends it otherwise.\<close>

fun parse_clubs ::
  "'f pylib \<Rightarrow> ('f pyval \<times> 'f pyval) list \<Rightarrow> ('f pyval \<times> 'f PlayerStats list) list
     \<Rightarrow> py_error + ('f pyval \<times> 'f PlayerStats list) list" where
  "parse_clubs L [] pbc = Inr pbc"
| "parse_clubs L ((cid, club_players) # rest) pbc =
     (case py_items club_players of
        Inl e \<Rightarrow> Inl e
      | Inr items \<Rightarrow>
          (case parse_club_players L cid items [] of
             Inl e \<Rightarrow> Inl e
           | Inr ps \<Rightarrow> parse_clubs L rest (AList.update cid ps pbc)))"

text \<open>\<^verbatim>\<open>ast.literal_eval\<close> inside \<^verbatim>\<open>try ... except (ValueError, SyntaxError)\<close>:
  these two are raised again as ValueError, any other exception passes.\<close>

definition decode_players :: "'f pylib \<Rightarrow> string \<Rightarrow> py_error + 'f pyval" where
  "decode_players L players_str =
     (case literal_eval L players_str of
        Inl e \<Rightarrow> (if e = ValueError \<or> e = SyntaxError then Inl ValueError else Inl e)
      | Inr players_data \<Rightarrow> Inr players_data)"

definition parse_match_row :: "'f pylib \<Rightarrow> 'f row \<Rightarrow> py_error + 'f MatchData" where
  "parse_match_row L row =
     ebind (row_get row ''matchId'') (\<lambda>c_id.
     ebind (row_get row ''timestamp'') (\<lambda>c_ts.
     ebind (row_get row ''timeAgo'') (\<lambda>c_ago.
     ebind (row_get row ''players'') (\<lambda>c_players.
     ebind (decode_players L (py_str L c_players)) (\<lambda>players_data.
     ebind (py_items players_data) (\<lambda>clubs.
     ebind (parse_clubs L clubs []) (\<lambda>pbc.
     Inr \<lparr>match_id = py_str L c_id, timestamp = py_str L c_ts, time_ago = py_str L c_ago,
          players_by_club = pbc\<rparr>)))))))"

text \<open>The keys of a player's dictionary that \<^verbatim>\<open>_parse_match_row\<close> converts with
  \<^verbatim>\<open>int()\<close>; the key \<^verbatim>\<open>rating\<close> is converted with \<^verbatim>\<open>float()\<close>.\<close>

definition int_stat_keys :: "string list" where
  "int_stat_keys =
     [''goals'', ''assists'', ''shots'', ''passesmade'', ''passattempts'', ''tacklesmade'',
      ''tackleattempts'', ''saves'', ''secondsPlayed'', ''SCORE'', ''wins'', ''losses'',
      ''redcards'', ''userResult'']"

section \<open>\<^verbatim>\<open>parse_csv\<close>\<close>

text \<open>The file club\_matches.csv is absent or holds rows, since the program writes it
  from a data frame that is not empty only; \<^verbatim>\<open>pd.read_csv\<close> raises on an absent
  file.\<close>

definition read_csv :: "'a list option \<Rightarrow> py_error + 'a list" where
  "read_csv file = (case file of None \<Rightarrow> Inl FileNotFoundError | Some rows \<Rightarrow> Inr rows)"

text \<open>The loop \<^verbatim>\<open>for idx, row in df.iterrows()\<close> with its
  \<^verbatim>\<open>try ... except Exception: continue\<close>; \<open>ms\<close> is \<^verbatim>\<open>self.matches\<close>.\<close>

fun parse_rows :: "'f pylib \<Rightarrow> 'f row list \<Rightarrow> 'f MatchData list \<Rightarrow> 'f MatchData list" where
  "parse_rows L [] ms = ms"
| "parse_rows L (row # rows) ms =
     (case parse_match_row L row of
        Inl e \<Rightarrow> parse_rows L rows ms
      | Inr m \<Rightarrow> parse_rows L rows (ms @ [m]))"

definition parse_csv ::
  "'f pylib \<Rightarrow> 'f row list option \<Rightarrow> 'f MatchPlayerParser
     \<Rightarrow> py_error + ('f MatchData list \<times> 'f MatchPlayerParser)" where
  "parse_csv L csv_file p =
     (case read_csv csv_file of
        Inl e \<Rightarrow> Inl e
      | Inr rows \<Rightarrow>
          (let ms = parse_rows L rows (matches p) in Inr (ms, p\<lparr>matches := ms\<rparr>)))"

section \<open>Reading and merging the history file\<close>

text \<open>\<^verbatim>\<open>pd.read_csv\<close> on the history file: it raises on an absent file and on
  the file without a header, and gives the lines of a table.\<close>

definition read_history_csv :: "'a history_file \<Rightarrow> py_error + 'a list" where
  "read_history_csv file =
     (case file of
        No_file \<Rightarrow> Inl FileNotFoundError
      | Blank_file \<Rightarrow> Inl EmptyDataError
      | Table_file written \<Rightarrow> Inr written)"

text \<open>\<^verbatim>\<open>load_most_recent_matches\<close> catches \<^verbatim>\<open>FileNotFoundError\<close> and nothing
  else. The data frame it returns is the written table as \<^verbatim>\<open>pd.read_csv\<close> types
  it.\<close>

definition load_most_recent_matches ::
  "'f pylib \<Rightarrow> 'f HistoryEntry history_file \<Rightarrow> py_error + 'f HistoryEntry list option" where
  "load_most_recent_matches L hist_file =
     (case read_history_csv hist_file of
        Inr written \<Rightarrow> Inr (Some (csv_read_back L written))
      | Inl e \<Rightarrow> (if e = FileNotFoundError then Inr None else Inl e))"

text \<open>The local \<^verbatim>\<open>new_match_ids\<close> of \<^verbatim>\<open>check_for_new_matches\<close>: a set difference
  of two sets of strings; \<^verbatim>\<open>astype(str)\<close> turns the cells of the column
  \<^verbatim>\<open>matchId\<close> into strings.\<close>

definition new_match_ids ::
  "'f pylib \<Rightarrow> 'f HistoryEntry list \<Rightarrow> 'f MatchData list \<Rightarrow> string set" where
  "new_match_ids L df ms =
     (let existing_match_ids = set (map (\<lambda>e. py_str L (h_matchId e)) df);
          current_match_ids = set (map match_id ms)
      in current_match_ids - existing_match_ids)"

definition check_for_new_matches ::
  "'f pylib \<Rightarrow> 'f HistoryEntry history_file \<Rightarrow> 'f MatchPlayerParser
     \<Rightarrow> py_error + (bool \<times> 'f MatchPlayerParser)" where
  "check_for_new_matches L hist_file p =
     (if matches p = [] then Inr (False, p)
      else
        ebind (load_most_recent_matches L hist_file) (\<lambda>most_recent_df.
          (case most_recent_df of
             None \<Rightarrow> Inr (True, p\<lparr>new_matches_detected := True\<rparr>)
           | Some df \<Rightarrow>
               (let new_match_ids = new_match_ids L df (matches p)
                in if new_match_ids \<noteq> {}
                   then Inr (True, p\<lparr>new_matches_detected := True\<rparr>)
                   else Inr (False, p\<lparr>new_matches_detected := False\<rparr>)))))"

text \<open>The dictionary appended to \<^verbatim>\<open>current_matches_data\<close> for one player.\<close>

definition history_row :: "'f MatchData \<Rightarrow> 'f PlayerStats \<Rightarrow> 'f HistoryEntry" where
  "history_row m pl =
     \<lparr>h_matchId = PStr (match_id m), h_timestamp = timestamp m, h_timeAgo = time_ago m,
      h_club_id = club_id pl, h_player_id = player_id pl, h_player_name = player_name pl,
      h_position = position pl, h_rating = rating pl, h_goals = goals pl,
      h_assists = assists pl, h_shots = shots pl, h_passes = passes pl,
      h_pass_attempts = pass_attempts pl, h_tackles = tackles pl,
      h_tackle_attempts = tackle_attempts pl, h_saves = saves pl,
      h_seconds_played = seconds_played pl, h_score = score pl, h_redcards = redcards pl\<rparr>"

text \<open>The three nested loops over matches, clubs and players.\<close>

definition current_matches_data :: "'f MatchData list \<Rightarrow> 'f HistoryEntry list" where
  "current_matches_data ms =
     concat (map (\<lambda>m. concat (map (\<lambda>(cid, players). map (history_row m) players)
                                   (players_by_club m))) ms)"

text \<open>\<^verbatim>\<open>drop_duplicates(subset=..., keep='last')\<close>: a line goes when a later line
  has the same key; the lines kept stay in their order. Keys are compared as Python
  values: the integer 1001 and the string \<^verbatim>\<open>'1001'\<close> are different keys.\<close>

fun drop_duplicates_last :: "('a \<Rightarrow> 'k) \<Rightarrow> 'a list \<Rightarrow> 'a list" where
  "drop_duplicates_last key [] = []"
| "drop_duplicates_last key (x # xs) =
     (if key x \<in> key ` set xs then drop_duplicates_last key xs
      else x # drop_duplicates_last key xs)"

definition hkey :: "'f HistoryEntry \<Rightarrow> 'f pyval \<times> 'f pyval" where
  "hkey e = (h_matchId e, h_player_id e)"

text \<open>The file that \<^verbatim>\<open>pd.DataFrame(data).to_csv(path, index=False)\<close> leaves: a
  data frame built from an empty list has no columns, and its file has no header.\<close>

definition data_frame_file :: "'a list \<Rightarrow> 'a history_file" where
  "data_frame_file data = (if data = [] then Blank_file else Table_file data)"

text \<open>\<^verbatim>\<open>update_most_recent_matches\<close> returns the history file as the call leaves
  it; the parser is not changed. In the first branch the data frame written has the
  columns of the file read, also when it has no lines.\<close>

definition update_most_recent_matches ::
  "'f pylib \<Rightarrow> 'f HistoryEntry history_file \<Rightarrow> 'f MatchPlayerParser
     \<Rightarrow> py_error + 'f HistoryEntry history_file" where
  "update_most_recent_matches L hist_file p =
     (if matches p = [] then Inr hist_file
      else
        (let current_df = current_matches_data (matches p) in
         ebind (load_most_recent_matches L hist_file) (\<lambda>most_recent_df.
           (case most_recent_df of
              Some df \<Rightarrow>
                (let updated_df = df @ current_df;
                     updated_df = drop_duplicates_last hkey updated_df
                 in Inr (Table_file updated_df))
            | None \<Rightarrow> Inr (data_frame_file current_df)))))"

subsection \<open>The history file during the write\<close>


section \<open>The most recent match and its export\<close>

definition get_most_recent_match ::
  "'f MatchPlayerParser \<Rightarrow> 'f MostRecentMatch option \<times> 'f MatchPlayerParser" where
  "get_most_recent_match p =
     (case matches p of
        [] \<Rightarrow> (None, p)
      | most_recent_raw # _ \<Rightarrow>
          (let all_players = concat (map snd (players_by_club most_recent_raw));
               mr = \<lparr>mr_match_id = match_id most_recent_raw,
                     mr_timestamp = timestamp most_recent_raw,
                     mr_time_ago = time_ago most_recent_raw,
                     mr_players = all_players,
                     is_new = new_matches_detected p\<rparr>
           in (Some mr, p\<lparr>most_recent_match := Some mr\<rparr>)))"

definition player_json :: "'f PlayerStats \<Rightarrow> 'f pyval" where
  "player_json p =
     PDict [(PStr ''player_id'', player_id p),
            (PStr ''player_name'', player_name p),
            (PStr ''position'', position p),
            (PStr ''rating'', PFloat (rating p)),
            (PStr ''goals'', PInt (goals p)),
            (PStr ''assists'', PInt (assists p)),
            (PStr ''shots'', PInt (shots p)),
            (PStr ''passes'', PInt (passes p)),
            (PStr ''pass_attempts'', PInt (pass_attempts p)),
            (PStr ''tackles'', PInt (tackles p)),
            (PStr ''tackle_attempts'', PInt (tackle_attempts p)),
            (PStr ''saves'', PInt (saves p)),
            (PStr ''seconds_played'', PInt (seconds_played p)),
            (PStr ''score'', PInt (score p)),
            (PStr ''redcards'', PInt (redcards p))]"

text \<open>The loop \<^verbatim>\<open>for club_id, players in most_recent.players_by_club.items()\<close>
  filling \<^verbatim>\<open>match_data['clubs']\<close>.\<close>

fun export_clubs ::
  "('f pyval \<times> 'f PlayerStats list) list \<Rightarrow> ('f pyval \<times> 'f pyval) list
     \<Rightarrow> ('f pyval \<times> 'f pyval) list" where
  "export_clubs [] clubs = clubs"
| "export_clubs ((cid, players) # rest) clubs =
     export_clubs rest (AList.update cid (PList (map player_json players)) clubs)"

definition match_json :: "'f MatchData \<Rightarrow> 'f pyval" where
  "match_json m =
     PDict [(PStr ''match_id'', PStr (match_id m)),
            (PStr ''timestamp'', PStr (timestamp m)),
            (PStr ''time_ago'', PStr (time_ago m)),
            (PStr ''clubs'', PDict (export_clubs (players_by_club m) []))]"

text \<open>\<^verbatim>\<open>export_most_recent_match_to_json\<close> returns the new content of the JSON
  file, as \<^verbatim>\<open>json.load\<close> will read it.\<close>

definition export_most_recent_match_to_json ::
  "'f pylib \<Rightarrow> 'f MatchPlayerParser \<Rightarrow> 'f pyval option \<Rightarrow> py_error + 'f pyval option" where
  "export_most_recent_match_to_json L p json_file =
     (case matches p of
        [] \<Rightarrow> Inr json_file
      | most_recent # _ \<Rightarrow>
          ebind (json_dump_load L (PList [match_json most_recent])) (\<lambda>data. Inr (Some data)))"

section \<open>\<^verbatim>\<open>PlayerStatsParser.parse_stats\<close>\<close>

text \<open>Subscription \<^verbatim>\<open>v[k]\<close> and iteration \<^verbatim>\<open>for x in v\<close> on a value read from
  JSON.\<close>

definition py_index :: "'f pyval \<Rightarrow> int option" where
  "py_index k = (case k of PInt i \<Rightarrow> Some i | PBool b \<Rightarrow> Some (if b then 1 else 0) | _ \<Rightarrow> None)"

text \<open>The place of index \<open>i\<close> in a sequence of \<open>len\<close> elements: an index below zero
  counts from the end, and an index outside the sequence has no place.\<close>

definition seq_position :: "nat \<Rightarrow> int \<Rightarrow> nat option" where
  "seq_position len i =
     (if 0 \<le> i \<and> i < int len then Some (nat i)
      else if i < 0 \<and> - int len \<le> i then Some (nat (int len + i))
      else None)"

definition py_getitem :: "'f pyval \<Rightarrow> 'f pyval \<Rightarrow> py_error + 'f pyval" where
  "py_getitem v k =
     (case v of
        PDict items \<Rightarrow>
          (case k of
             PList _ \<Rightarrow> Inl TypeError
           | PDict _ \<Rightarrow> Inl TypeError
           | _ \<Rightarrow> (case map_of items k of None \<Rightarrow> Inl KeyError | Some x \<Rightarrow> Inr x))
      | PList xs \<Rightarrow>
          (case py_index k of
             None \<Rightarrow> Inl TypeError
           | Some i \<Rightarrow>
               (case seq_position (length xs) i of
                  None \<Rightarrow> Inl IndexError
                | Some j \<Rightarrow> Inr (xs ! j)))
      | PStr s \<Rightarrow>
          (case py_index k of
             None \<Rightarrow> Inl TypeError
           | Some i \<Rightarrow>
               (case seq_position (length s) i of
                  None \<Rightarrow> Inl IndexError
                | Some j \<Rightarrow> Inr (PStr [s ! j])))
      | _ \<Rightarrow> Inl TypeError)"

definition py_iter :: "'f pyval \<Rightarrow> py_error + 'f pyval list" where
  "py_iter v =
     (case v of
        PList xs \<Rightarrow> Inr xs
      | PDict items \<Rightarrow> Inr (map fst items)
      | PStr s \<Rightarrow> Inr (map (\<lambda>c. PStr [c]) s)
      | _ \<Rightarrow> Inl TypeError)"

text \<open>\<^verbatim>\<open>stat.replace('_', ' ').title()\<close> on ASCII text: the first letter of each
  run of letters in upper case, the others in lower case.\<close>

definition ascii_lowercase :: string where
  "ascii_lowercase = ''abcdefghijklmnopqrstuvwxyz''"

definition ascii_uppercase :: string where
  "ascii_uppercase = ''ABCDEFGHIJKLMNOPQRSTUVWXYZ''"

definition is_lower :: "char \<Rightarrow> bool" where
  "is_lower c = (c \<in> set ascii_lowercase)"

definition is_upper :: "char \<Rightarrow> bool" where
  "is_upper c = (c \<in> set ascii_uppercase)"

definition to_upper :: "char \<Rightarrow> char" where
  "to_upper c = (case map_of (zip ascii_lowercase ascii_uppercase) c of Some u \<Rightarrow> u | None \<Rightarrow> c)"

definition to_lower :: "char \<Rightarrow> char" where
  "to_lower c = (case map_of (zip ascii_uppercase ascii_lowercase) c of Some l \<Rightarrow> l | None \<Rightarrow> c)"

fun title_from :: "bool \<Rightarrow> string \<Rightarrow> string" where
  "title_from previous_is_cased [] = []"
| "title_from previous_is_cased (c # cs) =
     (if is_lower c then (if previous_is_cased then c else to_upper c) # title_from True cs
      else if is_upper c then (if previous_is_cased then to_lower c else c) # title_from True cs
      else c # title_from False cs)"

definition title :: "string \<Rightarrow> string" where
  "title s = title_from False s"

definition replace_char :: "char \<Rightarrow> char \<Rightarrow> string \<Rightarrow> string" where
  "replace_char a b s = map (\<lambda>c. if c = a then b else c) s"

text \<open>The f-string \<^verbatim>\<open>f"{player['player_name']} {stat.replace('_', ' ').title()} {player[stat]}"\<close>.\<close>

definition make_payload :: "'f pylib \<Rightarrow> 'f pyval \<Rightarrow> string \<Rightarrow> py_error + string" where
  "make_payload L player stat =
     ebind (py_getitem player (PStr ''player_name'')) (\<lambda>name.
     ebind (py_getitem player (PStr stat)) (\<lambda>v.
     Inr (py_str L name @ '' '' @ title (replace_char CHR ''_'' CHR '' '' stat) @ '' '' @ py_str L v)))"

text \<open>The loops \<^verbatim>\<open>for player in players: for stat in stats_to_check:\<close>;
  \<open>payloads\<close> is the list built so far.\<close>

fun stat_loop :: "'f pylib \<Rightarrow> 'f pyval \<Rightarrow> string list \<Rightarrow> string list \<Rightarrow> py_error + string list" where
  "stat_loop L player [] payloads = Inr payloads"
| "stat_loop L player (stat # stats) payloads =
     (case make_payload L player stat of
        Inl e \<Rightarrow> Inl e
      | Inr payload \<Rightarrow> stat_loop L player stats (payloads @ [payload]))"

fun player_loop :: "'f pylib \<Rightarrow> 'f pyval list \<Rightarrow> string list \<Rightarrow> string list \<Rightarrow> py_error + string list" where
  "player_loop L [] stats payloads = Inr payloads"
| "player_loop L (player # players) stats payloads =
     (case stat_loop L player stats payloads of
        Inl e \<Rightarrow> Inl e
      | Inr payloads' \<Rightarrow> player_loop L players stats payloads')"

definition stats_to_check :: "string list" where
  "stats_to_check = [''goals'', ''assists'', ''passes'', ''tackles'', ''redcards'']"

definition tracked_club_id :: string where
  "tracked_club_id = ''3439844''"

text \<open>\<open>json_file\<close> is the content of newest\_match.json, absent or as
  \<^verbatim>\<open>json.load\<close> reads it.\<close>

definition parse_stats :: "'f pylib \<Rightarrow> 'f pyval option \<Rightarrow> py_error + string list" where
  "parse_stats L json_file =
     (case json_file of
        None \<Rightarrow> Inl FileNotFoundError
      | Some data \<Rightarrow>
          ebind (py_getitem data (PInt 0)) (\<lambda>d0.
          ebind (py_getitem d0 (PStr ''clubs'')) (\<lambda>clubs.
          ebind (py_getitem clubs (PStr tracked_club_id)) (\<lambda>players.
          ebind (py_iter players) (\<lambda>players_list.
          player_loop L players_list stats_to_check [])))))"

section \<open>One round of the loop of main.py\<close>

text \<open>
  The files and the parser object live through the rounds of \<^verbatim>\<open>while True\<close>.
  \<open>delivered\<close> collects the payloads the sink has accepted.
\<close>

record 'f world =
  match_parser :: "'f MatchPlayerParser"
  club_matches_csv :: "'f row list option"
  most_recent_matches_csv :: "'f HistoryEntry history_file"
  newest_match_json :: "'f pyval option"
  delivered :: "string list"

definition init_world :: "'f world" where
  "init_world =
     \<lparr>match_parser = init_parser, club_matches_csv = None, most_recent_matches_csv = No_file,
      newest_match_json = None, delivered = []\<rparr>"

text \<open>\<^verbatim>\<open>for payload in payloads: sender.send()\<close>; a send that raises ends the
  program.\<close>

fun send_all :: "(string \<Rightarrow> py_error + 'r) \<Rightarrow> string list \<Rightarrow> string list \<Rightarrow> py_error + string list" where
  "send_all sink [] sent = Inr sent"
| "send_all sink (payload # payloads) sent =
     (case sink payload of
        Inl e \<Rightarrow> Inl e
      | Inr response \<Rightarrow> send_all sink payloads (sent @ [payload]))"

text \<open>
  One round. \<open>fetched\<close> is what the API call returned, as the rows
  \<^verbatim>\<open>pd.read_csv\<close> gives once the data frame is exported: \<open>None\<close> when the call
  failed. An exception that no handler catches ends the program (\<open>Inl\<close>).
  The result is the list of payloads sent in this round and the new state.
\<close>

definition main_round ::
  "'f pylib \<Rightarrow> (string \<Rightarrow> py_error + 'r) \<Rightarrow> 'f row list option \<Rightarrow> 'f world
     \<Rightarrow> py_error + (string list \<times> 'f world)" where
  "main_round L sink fetched w =
     (let csv = (case fetched of
                   None \<Rightarrow> club_matches_csv w
                 | Some rows \<Rightarrow> (if rows = [] then club_matches_csv w else Some rows)) in
      ebind (parse_csv L csv (match_parser w)) (\<lambda>(ms, p1).
      ebind (check_for_new_matches L (most_recent_matches_csv w) p1) (\<lambda>(has_new, p2).
        if has_new then
          ebind (update_most_recent_matches L (most_recent_matches_csv w) p2) (\<lambda>hist.
          ebind (export_most_recent_match_to_json L p2 (newest_match_json w)) (\<lambda>json.
          ebind (parse_stats L json) (\<lambda>payloads.
          ebind (send_all sink payloads []) (\<lambda>sent.
          Inr (sent, \<lparr>match_parser = p2, club_matches_csv = csv,
                     most_recent_matches_csv = hist, newest_match_json = json,
                     delivered = delivered w @ sent\<rparr>)))))
        else Inr ([], w\<lparr>match_parser := p2, club_matches_csv := csv\<rparr>))))"

section \<open>The Change Detector in the words of the specification\<close>

text \<open>The set of match ids the History Store knows (\<open>matchIdsKnown\<close>): the ids of
  the table read from the file, as strings; none when the file is absent or holds no
  table.\<close>

definition known_ids :: "'f pylib \<Rightarrow> 'f HistoryEntry history_file \<Rightarrow> string set" where
  "known_ids L hist_file =
     (case hist_file of
        Table_file written \<Rightarrow> set (map (\<lambda>e. py_str L (h_matchId e)) (csv_read_back L written))
      | _ \<Rightarrow> {})"

text \<open>The ordered subset of new matches: those whose id is not known, in fetch order.\<close>

definition new_matches :: "string set \<Rightarrow> 'f MatchData list \<Rightarrow> 'f MatchData list" where
  "new_matches known ms = filter (\<lambda>m. match_id m \<notin> known) ms"

section \<open>Repeated calls\<close>

text \<open>\<^verbatim>\<open>parse_csv\<close> called on the same parser once for each content of
  club\_matches.csv in the list.\<close>

fun parse_csv_calls ::
  "'f pylib \<Rightarrow> 'f row list list \<Rightarrow> 'f MatchPlayerParser \<Rightarrow> py_error + 'f MatchPlayerParser" where
  "parse_csv_calls L [] p = Inr p"
| "parse_csv_calls L (rows # later) p =
     ebind (parse_csv L (Some rows) p) (\<lambda>(ms, p'). parse_csv_calls L later p')"

section \<open>Sample data\<close>

text \<open>
  Concrete inputs on which the definitions above are evaluated. The library functions
  are given by their values in CPython at the arguments that occur: the samples use
  integers, strings of ASCII digits, and a few texts of dictionaries.
\<close>

datatype sample_float = Float_of_int int | Float_inf

definition players_text_1 :: string where
  "players_text_1 = ''{'3439844': {'101': {'playername': 'Alice', 'goals': '2', 'assists': '1'}}}''"

definition players_value_1 :: "sample_float pyval" where
  "players_value_1 =
     PDict [(PStr ''3439844'',
             PDict [(PStr ''101'',
                     PDict [(PStr ''playername'', PStr ''Alice''),
                            (PStr ''goals'', PStr ''2''),
                            (PStr ''assists'', PStr ''1'')])])]"

text \<open>The same dictionary written without the spaces that \<^verbatim>\<open>str\<close> prints.\<close>

definition players_text_1_compact :: string where
  "players_text_1_compact = ''{'3439844':{'101':{'playername':'Alice','goals':'2','assists':'1'}}}''"

definition players_text_2 :: string where
  "players_text_2 = ''{'3439844': {'101': {'playername': 'Alice', 'goals': '5', 'assists': '0'}}}''"

definition players_value_2 :: "sample_float pyval" where
  "players_value_2 =
     PDict [(PStr ''3439844'',
             PDict [(PStr ''101'',
                     PDict [(PStr ''playername'', PStr ''Alice''),
                            (PStr ''goals'', PStr ''5''),
                            (PStr ''assists'', PStr ''0'')])])]"

text \<open>A player whose goals are not a number.\<close>

definition players_text_3 :: string where
  "players_text_3 = ''{'3439844': {'101': {'playername': 'Alice', 'goals': 'two'}}}''"

definition players_value_3 :: "sample_float pyval" where
  "players_value_3 =
     PDict [(PStr ''3439844'',
             PDict [(PStr ''101'',
                     PDict [(PStr ''playername'', PStr ''Alice''),
                            (PStr ''goals'', PStr ''two'')])])]"

text \<open>A text that is not a Python literal: the dictionary is not closed.\<close>

definition players_text_bad :: string where
  "players_text_bad = ''{'3439844': {''"

text \<open>The float literal \<^verbatim>\<open>1e999\<close> denotes infinity, which \<^verbatim>\<open>repr\<close> prints as
  \<^verbatim>\<open>inf\<close>, a name that \<^verbatim>\<open>ast.literal_eval\<close> rejects with ValueError.\<close>

definition players_text_inf :: string where
  "players_text_inf = ''{'3439844': {'101': {'rating': 1e999}}}''"

definition players_value_inf :: "sample_float pyval" where
  "players_value_inf =
     PDict [(PStr ''3439844'',
             PDict [(PStr ''101'', PDict [(PStr ''rating'', PFloat Float_inf)])])]"

definition players_repr_inf :: string where
  "players_repr_inf = ''{'3439844': {'101': {'rating': inf}}}''"

definition sample_literal_eval :: "string \<Rightarrow> py_error + sample_float pyval" where
  "sample_literal_eval s =
     (if s = players_text_1 then Inr players_value_1
      else if s = players_text_1_compact then Inr players_value_1
      else if s = players_text_2 then Inr players_value_2
      else if s = players_text_3 then Inr players_value_3
      else if s = players_text_inf then Inr players_value_inf
      else if s = players_repr_inf then Inl ValueError
      else Inl SyntaxError)"

definition sample_repr :: "sample_float pyval \<Rightarrow> string" where
  "sample_repr v =
     (if v = players_value_1 then players_text_1
      else if v = players_value_2 then players_text_2
      else if v = players_value_3 then players_text_3
      else if v = players_value_inf then players_repr_inf
      else ''nan'')"

fun digits_value :: "string \<Rightarrow> nat \<Rightarrow> nat option" where
  "digits_value [] acc = Some acc"
| "digits_value (c # cs) acc =
     (case map_of (zip ''0123456789'' [0, 1, 2, 3, 4, 5, 6, 7, 8, 9]) c of
        None \<Rightarrow> None
      | Some d \<Rightarrow> digits_value cs (10 * acc + d))"

definition sample_int :: "sample_float pyval \<Rightarrow> py_error + int" where
  "sample_int v =
     (case v of
        PInt i \<Rightarrow> Inr i
      | PBool b \<Rightarrow> Inr (if b then 1 else 0)
      | PFloat (Float_of_int i) \<Rightarrow> Inr i
      | PFloat Float_inf \<Rightarrow> Inl OtherError
      | PStr s \<Rightarrow>
          (if s = [] then Inl ValueError
           else (case digits_value s 0 of None \<Rightarrow> Inl ValueError | Some n \<Rightarrow> Inr (int n)))
      | _ \<Rightarrow> Inl TypeError)"

definition sample_float :: "sample_float pyval \<Rightarrow> py_error + sample_float" where
  "sample_float v =
     (case v of
        PInt i \<Rightarrow> Inr (Float_of_int i)
      | PBool b \<Rightarrow> Inr (Float_of_int (if b then 1 else 0))
      | PFloat f \<Rightarrow> Inr f
      | PStr s \<Rightarrow>
          (if s = [] then Inl ValueError
           else (case digits_value s 0 of
                   None \<Rightarrow> Inl ValueError
                 | Some n \<Rightarrow> Inr (Float_of_int (int n))))
      | _ \<Rightarrow> Inl TypeError)"

text \<open>
  \<^verbatim>\<open>pd.read_csv\<close> on the history file: a column whose cells are all written as
  digits is read as integers, any other column as the strings written. The samples
  have such cells in the columns \<^verbatim>\<open>matchId\<close>, \<^verbatim>\<open>club_id\<close> and \<^verbatim>\<open>player_id\<close>.
\<close>

definition digits_cell :: "sample_float pyval \<Rightarrow> bool" where
  "digits_cell c =
     (case c of
        PInt i \<Rightarrow> 0 \<le> i
      | PStr s \<Rightarrow> s \<noteq> [] \<and> digits_value s 0 \<noteq> None
      | _ \<Rightarrow> False)"

definition int_cell :: "sample_float pyval \<Rightarrow> sample_float pyval" where
  "int_cell c =
     (case c of
        PStr s \<Rightarrow> (case digits_value s 0 of None \<Rightarrow> c | Some n \<Rightarrow> PInt (int n))
      | _ \<Rightarrow> c)"

definition text_cell :: "sample_float pyval \<Rightarrow> sample_float pyval" where
  "text_cell c = (case c of PInt i \<Rightarrow> PStr (str_int i) | _ \<Rightarrow> c)"

definition read_column ::
  "(sample_float HistoryEntry \<Rightarrow> sample_float pyval) \<Rightarrow> sample_float HistoryEntry list
     \<Rightarrow> sample_float pyval \<Rightarrow> sample_float pyval" where
  "read_column col written c =
     (if list_all (\<lambda>e. digits_cell (col e)) written then int_cell c else text_cell c)"

definition sample_read_back :: "sample_float HistoryEntry list \<Rightarrow> sample_float HistoryEntry list" where
  "sample_read_back written =
     map (\<lambda>e. e\<lparr>h_matchId := read_column h_matchId written (h_matchId e),
                 h_club_id := read_column h_club_id written (h_club_id e),
                 h_player_id := read_column h_player_id written (h_player_id e)\<rparr>) written"

text \<open>
  \<^verbatim>\<open>DataFrame.to_csv\<close> on a path opens the file for writing, which empties it or
  creates it empty, and hands the text to a buffered stream; the text of a table as
  small as the samples stays in the buffer until the file is closed. Between the open
  and the return the path holds nothing, and then the whole new file.
\<close>

definition sample_to_csv_states ::
  "sample_float HistoryEntry history_file \<Rightarrow> sample_float HistoryEntry disk_file list" where
  "sample_to_csv_states written = [Emptied, Intact written]"

text \<open>The exported match has strings as dictionary keys, and integers and strings as
  values: \<^verbatim>\<open>json.load\<close> reads back what \<^verbatim>\<open>json.dump\<close> wrote.\<close>

definition sample_lib :: "sample_float pylib" where
  "sample_lib =
     \<lparr>literal_eval = sample_literal_eval, py_repr = sample_repr, py_int = sample_int,
      py_float = sample_float, json_dump_load = Inr, csv_read_back = sample_read_back,
      to_csv_states = sample_to_csv_states\<rparr>"

definition sample_sink :: "string \<Rightarrow> py_error + string" where
  "sample_sink payload = Inr ''OK''"

definition sample_row :: "int \<Rightarrow> sample_float pyval \<Rightarrow> sample_float row" where
  "sample_row mid players =
     [''matchId'' \<mapsto> PInt mid, ''timestamp'' \<mapsto> PStr ''2025-01-01 20:00:00'',
      ''timeAgo'' \<mapsto> PStr ''1 hours'', ''players'' \<mapsto> players]"

text \<open>A row of a file that has no column \<^verbatim>\<open>players\<close>.\<close>

definition sample_row_no_players :: "int \<Rightarrow> sample_float row" where
  "sample_row_no_players mid =
     [''matchId'' \<mapsto> PInt mid, ''timestamp'' \<mapsto> PStr ''2025-01-01 20:00:00'',
      ''timeAgo'' \<mapsto> PStr ''1 hours'']"

definition sample_player :: "string \<Rightarrow> string \<Rightarrow> int \<Rightarrow> int \<Rightarrow> sample_float PlayerStats" where
  "sample_player pid name g a =
     \<lparr>player_id = PStr pid, player_name = PStr name, club_id = PStr ''3439844'',
      position = PStr ''Unknown'', archetype_id = PStr ''0'', rating = Float_of_int 0,
      goals = g, assists = a, shots = 0, passes = 0, pass_attempts = 0, tackles = 0,
      tackle_attempts = 0, saves = 0, seconds_played = 0, score = 0, wins = 0, losses = 0,
      redcards = 0, user_result = 0\<rparr>"

definition sample_match :: "string \<Rightarrow> sample_float PlayerStats list \<Rightarrow> sample_float MatchData" where
  "sample_match mid players =
     \<lparr>match_id = mid, timestamp = ''2025-01-01 20:00:00'', time_ago = ''1 hours'',
      players_by_club = [(PStr ''3439844'', players)]\<rparr>"

definition sample_parser :: "sample_float MatchData list \<Rightarrow> sample_float MatchPlayerParser" where
  "sample_parser ms = \<lparr>matches = ms, most_recent_match = None, new_matches_detected = False\<rparr>"

section \<open>Exceptions and the row loop\<close>

lemma ebind_Inl [simp]: "ebind (Inl e) f = Inl e"
  by (simp add: ebind_def)

lemma ebind_Inr [simp]: "ebind (Inr x) f = f x"
  by (simp add: ebind_def)

lemma ebind_eq_Inr: "ebind m f = Inr y \<longleftrightarrow> (\<exists>x. m = Inr x \<and> f x = Inr y)"
  by (cases m) simp_all

lemma parse_rows_acc: "parse_rows L rows ms = ms @ parse_rows L rows []"
proof (induction rows arbitrary: ms)
  case Nil
  show ?case by simp
next
  case (Cons row rows)
  show ?case
  proof (cases "parse_match_row L row")
    case (Inl e)
    then show ?thesis using Cons.IH [of ms] by simp
  next
    case (Inr m)
    then show ?thesis using Cons.IH [of "ms @ [m]"] Cons.IH [of "[m]"] by simp
  qed
qed

lemma parse_rows_app: "parse_rows L (xs @ ys) ms = parse_rows L ys (parse_rows L xs ms)"
  by (induction xs arbitrary: ms) (auto split: sum.splits)

lemma parse_rows_map_filter:
  "parse_rows L rows [] =
     List.map_filter (\<lambda>row. case parse_match_row L row of Inl e \<Rightarrow> None | Inr m \<Rightarrow> Some m) rows"
proof (induction rows)
  case Nil
  show ?case by (simp add: List.map_filter_simps)
next
  case (Cons row rows)
  show ?case
  proof (cases "parse_match_row L row")
    case (Inl e)
    then show ?thesis using Cons.IH by (simp add: List.map_filter_simps)
  next
    case (Inr m)
    then show ?thesis using Cons.IH parse_rows_acc [of L rows "[m]"]
      by (simp add: List.map_filter_simps)
  qed
qed

lemma parse_csv_Some:
  "parse_csv L (Some rows) p =
     Inr (matches p @ parse_rows L rows [], p\<lparr>matches := matches p @ parse_rows L rows []\<rparr>)"
  using parse_rows_acc [of L rows "matches p"]
  by (simp add: parse_csv_def read_csv_def Let_def)

lemma parse_csv_calls_matches:
  "\<exists>p'. parse_csv_calls L files p = Inr p' \<and>
        matches p' = matches p @ concat (map (\<lambda>rows. parse_rows L rows []) files) \<and>
        most_recent_match p' = most_recent_match p \<and>
        new_matches_detected p' = new_matches_detected p"
proof (induction files arbitrary: p)
  case Nil
  show ?case by simp
next
  case (Cons rows files)
  obtain p' where "parse_csv_calls L files (p\<lparr>matches := matches p @ parse_rows L rows []\<rparr>) = Inr p'"
    and "matches p' = matches (p\<lparr>matches := matches p @ parse_rows L rows []\<rparr>) @ concat (map (\<lambda>rows. parse_rows L rows []) files)"
    and "most_recent_match p' = most_recent_match p"
    and "new_matches_detected p' = new_matches_detected p"
    using Cons.IH [of "p\<lparr>matches := matches p @ parse_rows L rows []\<rparr>"] by auto
  then show ?case by (simp add: parse_csv_Some)
qed

lemma parse_player_dict: "parse_player L cid pid st = Inr pl \<Longrightarrow> \<exists>items. st = PDict items"
  by (cases st) (simp_all add: parse_player_def py_get_def)

lemma py_get_dict:
  "py_get (PDict items) k d = Inr (case map_of items k of None \<Rightarrow> d | Some v \<Rightarrow> v)"
  by (simp add: py_get_def split: option.splits)

lemma parse_player_int_ok:
  assumes "parse_player L cid pid (PDict st) = Inr pl" and "k \<in> set int_stat_keys"
    and "map_of st (PStr k) = Some v"
  shows "\<exists>n. py_int L v = Inr n"
  using assms
  unfolding parse_player_def py_get_dict ebind_Inr ebind_eq_Inr int_stat_keys_def
  by auto

lemma parse_player_float_ok:
  assumes "parse_player L cid pid (PDict st) = Inr pl"
    and "map_of st (PStr ''rating'') = Some v"
  shows "\<exists>x. py_float L v = Inr x"
  using assms
  unfolding parse_player_def py_get_dict ebind_Inr ebind_eq_Inr
  by auto

lemma parse_club_players_ok:
  "parse_club_players L cid items acc = Inr ps \<Longrightarrow> (pid, st) \<in> set items
     \<Longrightarrow> \<exists>pl. parse_player L cid pid st = Inr pl"
  by (induction L cid items acc rule: parse_club_players.induct) (auto split: sum.splits)

lemma parse_clubs_ok:
  "parse_clubs L clubs pbc = Inr r \<Longrightarrow> (cid, cp) \<in> set clubs
     \<Longrightarrow> \<exists>items ps. py_items cp = Inr items \<and> parse_club_players L cid items [] = Inr ps"
  by (induction L clubs pbc rule: parse_clubs.induct) (auto split: sum.splits)

subsection \<open>The sample rows, evaluated\<close>

lemmas sample_eval =
  parse_match_row_def row_get_def sample_row_def decode_players_def py_str_def
  sample_lib_def sample_literal_eval_def sample_repr_def
  players_text_1_def players_text_1_compact_def players_text_2_def players_text_3_def
  players_text_inf_def players_repr_inf_def players_text_bad_def
  players_value_1_def players_value_2_def players_value_3_def players_value_inf_def
  py_items_def parse_player_def py_get_def sample_int_def sample_float_def
  str_int_def str_nat.simps digit_char_def sample_match_def sample_player_def

lemma sample_row_1:
  "parse_match_row sample_lib (sample_row 1001 (PStr players_text_1))
     = Inr (sample_match ''1001'' [sample_player ''101'' ''Alice'' 2 1])"
  by (simp add: sample_eval)

lemma sample_row_2:
  "parse_match_row sample_lib (sample_row 1002 (PStr players_text_2))
     = Inr (sample_match ''1002'' [sample_player ''101'' ''Alice'' 5 0])"
  by (simp add: sample_eval)

lemma sample_row_3:
  "parse_match_row sample_lib (sample_row 1003 (PStr players_text_3)) = Inl ValueError"
  by (simp add: sample_eval)

lemma sample_row_bad:
  "parse_match_row sample_lib (sample_row 1004 (PStr players_text_bad)) = Inl ValueError"
  by (simp add: sample_eval)

lemma sample_row_missing:
  "parse_match_row sample_lib ((sample_row 1005 PNone)(''players'' := None)) = Inl KeyError"
  by (simp add: sample_eval)

lemma parse_match_row_Inr_players:
  assumes "parse_match_row L row = Inr m"
  shows "\<exists>c clubs pbc. row ''players'' = Some c \<and> literal_eval L (py_str L c) = Inr (PDict clubs)
            \<and> parse_clubs L clubs [] = Inr pbc"
proof -
  from assms obtain c d clubs pbc where c: "row_get row ''players'' = Inr c"
    and d: "decode_players L (py_str L c) = Inr d"
    and clubs: "py_items d = Inr clubs"
    and pbc: "parse_clubs L clubs [] = Inr pbc"
    unfolding parse_match_row_def ebind_eq_Inr by blast
  from c have "row ''players'' = Some c"
    by (simp add: row_get_def split: option.splits)
  moreover from d have "literal_eval L (py_str L c) = Inr d"
    by (simp add: decode_players_def split: sum.splits if_splits)
  moreover from clubs have "d = PDict clubs"
    by (cases d) (simp_all add: py_items_def)
  ultimately show ?thesis using pbc by blast
qed

lemma failing_row_is_skipped:
  assumes "parse_match_row L row = Inl e"
  shows "parse_rows L (before @ row # after) [] = parse_rows L before [] @ parse_rows L after []"
proof -
  have "parse_rows L (before @ row # after) [] = parse_rows L (row # after) (parse_rows L before [])"
    by (rule parse_rows_app)
  also have "\<dots> = parse_rows L after (parse_rows L before [])"
    using assms by simp
  also have "\<dots> = parse_rows L before [] @ parse_rows L after []"
    by (rule parse_rows_acc)
  finally show ?thesis .
qed

subsection \<open>The change detector\<close>

lemma load_No_file [simp]: "load_most_recent_matches L No_file = Inr None"
  by (simp add: load_most_recent_matches_def read_history_csv_def)

lemma load_Blank_file [simp]: "load_most_recent_matches L Blank_file = Inl EmptyDataError"
  by (simp add: load_most_recent_matches_def read_history_csv_def)

lemma load_Table_file [simp]:
  "load_most_recent_matches L (Table_file written) = Inr (Some (csv_read_back L written))"
  by (simp add: load_most_recent_matches_def read_history_csv_def)

lemma new_match_ids_empty_iff:
  "new_match_ids L df ms \<noteq> {}
     \<longleftrightarrow> (\<exists>m \<in> set ms. match_id m \<notin> set (map (\<lambda>e. py_str L (h_matchId e)) df))"
  by (auto simp add: new_match_ids_def Let_def)

text \<open>The detector raises on the file without a header, unless there is no match, and
  returns on every other file.\<close>

lemma check_for_new_matches_eq:
  "check_for_new_matches L hist_file p =
     (if matches p \<noteq> [] \<and> hist_file = Blank_file then Inl EmptyDataError
      else Inr (\<exists>m \<in> set (matches p). match_id m \<notin> known_ids L hist_file,
                if matches p = [] then p
                else p\<lparr>new_matches_detected :=
                         (\<exists>m \<in> set (matches p). match_id m \<notin> known_ids L hist_file)\<rparr>))"
proof (cases "matches p = []")
  case True
  then show ?thesis by (simp add: check_for_new_matches_def)
next
  case False
  then have some: "\<exists>m. m \<in> set (matches p)"
    by (cases "matches p") auto
  show ?thesis
  proof (cases hist_file)
    case No_file
    then show ?thesis using False some
      by (simp add: check_for_new_matches_def known_ids_def)
  next
    case Blank_file
    then show ?thesis using False
      by (simp add: check_for_new_matches_def)
  next
    case (Table_file written)
    then show ?thesis
      using False new_match_ids_empty_iff [of L "csv_read_back L written" "matches p"]
      by (simp add: check_for_new_matches_def known_ids_def Let_def del: set_map)
  qed
qed

lemma check_for_new_matches_keeps_matches:
  "check_for_new_matches L hist_file p = Inr (has_new, p') \<Longrightarrow> matches p' = matches p"
  by (auto simp add: check_for_new_matches_eq split: if_splits)

lemma new_matches_nonempty_iff:
  "new_matches known ms \<noteq> [] \<longleftrightarrow> (\<exists>m \<in> set ms. match_id m \<notin> known)"
  by (auto simp add: new_matches_def filter_empty_conv)

lemmas sample_read_back_eval =
  sample_read_back_def read_column_def digits_cell_def int_cell_def text_cell_def

lemma sample_csv_read_back: "csv_read_back sample_lib = sample_read_back"
  by (simp add: sample_lib_def)

lemmas sample_hist_eval =
  check_for_new_matches_def load_most_recent_matches_def read_history_csv_def new_match_ids_def
  current_matches_data_def history_row_def sample_match_def sample_parser_def sample_player_def
  known_ids_def new_matches_def Let_def sample_csv_read_back sample_read_back_eval py_str_def
  str_int_def str_nat.simps digit_char_def

subsection \<open>Dropping duplicates and merging\<close>

lemma ddl_keys: "key ` set (drop_duplicates_last key xs) = key ` set xs"
  by (induction xs) auto

lemma ddl_subset: "set (drop_duplicates_last key xs) \<subseteq> set xs"
  by (induction xs) auto

lemma ddl_distinct: "distinct (map key (drop_duplicates_last key xs))"
proof (induction xs)
  case Nil
  show ?case by simp
next
  case (Cons x xs)
  show ?case
  proof (cases "key x \<in> key ` set xs")
    case True
    then show ?thesis using Cons.IH by simp
  next
    case False
    then have "key x \<notin> key ` set (drop_duplicates_last key xs)"
      by (simp add: ddl_keys)
    then show ?thesis using False Cons.IH by simp
  qed
qed

lemma ddl_id: "distinct (map key xs) \<Longrightarrow> drop_duplicates_last key xs = xs"
  by (induction xs) auto

lemma ddl_append:
  "drop_duplicates_last key (xs @ ys)
     = filter (\<lambda>x. key x \<notin> key ` set ys) (drop_duplicates_last key xs)
       @ drop_duplicates_last key ys"
  by (induction xs) (auto simp add: image_Un)

lemma ddl_filter_key:
  "filter (\<lambda>x. key x = k) (drop_duplicates_last key xs)
     = (if k \<in> key ` set xs then [last (filter (\<lambda>x. key x = k) xs)] else [])"
proof (induction xs)
  case Nil
  show ?case by simp
next
  case (Cons x xs)
  show ?case
  proof (cases "key x \<in> key ` set xs")
    case True
    have "filter (\<lambda>x. key x = k) xs \<noteq> []" if "key x = k"
      using True that by (auto simp add: filter_empty_conv)
    then show ?thesis using True Cons.IH by auto
  next
    case False
    have "filter (\<lambda>y. key y = k) xs = []" if "key x = k"
      using False that by (auto simp add: filter_empty_conv image_iff)
    then show ?thesis using False Cons.IH by auto
  qed
qed

lemma ddl_merge_twice:
  "drop_duplicates_last key (drop_duplicates_last key (old @ cur) @ cur)
     = drop_duplicates_last key (old @ cur)"
proof -
  let ?keep = "filter (\<lambda>x. key x \<notin> key ` set cur) (drop_duplicates_last key old)"
  have first: "drop_duplicates_last key (old @ cur) = ?keep @ drop_duplicates_last key cur"
    by (rule ddl_append)
  have "distinct (map key (?keep @ drop_duplicates_last key cur))"
    using ddl_distinct [of key "old @ cur"] by (simp only: first)
  then have same: "drop_duplicates_last key (?keep @ drop_duplicates_last key cur)
      = ?keep @ drop_duplicates_last key cur"
    by (rule ddl_id)
  have gone: "filter (\<lambda>x. key x \<notin> key ` set cur) (drop_duplicates_last key cur) = []"
    using ddl_subset [of key cur] by (auto simp add: filter_empty_conv)
  have "drop_duplicates_last key ((?keep @ drop_duplicates_last key cur) @ cur)
      = filter (\<lambda>x. key x \<notin> key ` set cur) (?keep @ drop_duplicates_last key cur)
        @ drop_duplicates_last key cur"
    by (simp only: ddl_append [of key "?keep @ drop_duplicates_last key cur" cur] same)
  also have "\<dots> = ?keep @ drop_duplicates_last key cur"
    using gone by simp
  finally show ?thesis
    by (simp only: first)
qed

lemma ddl_twice_distinct:
  assumes "distinct (map key cur)"
  shows "drop_duplicates_last key (cur @ cur) = cur"
proof -
  have "filter (\<lambda>x. key x \<notin> key ` set cur) (drop_duplicates_last key cur) = []"
    using ddl_subset [of key cur] by (auto simp add: filter_empty_conv)
  then show ?thesis
    using ddl_append [of key cur cur] ddl_id [OF assms] by simp
qed

lemma update_Table_file:
  "matches p \<noteq> [] \<Longrightarrow> update_most_recent_matches L (Table_file written) p
     = Inr (Table_file (drop_duplicates_last hkey
                          (csv_read_back L written @ current_matches_data (matches p))))"
  by (simp add: update_most_recent_matches_def Let_def)



lemma sample_data_frame_file:
  "data_frame_file (current_matches_data (sample_match mid (pl # pls) # ms))
     = Table_file (current_matches_data (sample_match mid (pl # pls) # ms))"
  by (simp add: data_frame_file_def current_matches_data_def sample_match_def)

lemma update_no_matches:
  "matches p = [] \<Longrightarrow> update_most_recent_matches L hist_file p = Inr hist_file"
  by (simp add: update_most_recent_matches_def)


lemmas sample_update_eval =
  update_most_recent_matches_def load_most_recent_matches_def read_history_csv_def
  data_frame_file_def current_matches_data_def history_row_def hkey_def sample_match_def sample_parser_def
  sample_player_def Let_def sample_csv_read_back sample_read_back_eval

subsection \<open>The fact extractor\<close>

lemma stat_loop_ok:
  "(\<And>stat. stat \<in> set stats \<Longrightarrow> make_payload L player stat = Inr (f stat))
     \<Longrightarrow> stat_loop L player stats payloads = Inr (payloads @ map f stats)"
  by (induction stats arbitrary: payloads) simp_all

lemma player_loop_ok:
  "(\<And>pl stat. pl \<in> set players \<Longrightarrow> stat \<in> set stats \<Longrightarrow> make_payload L pl stat = Inr (f pl stat))
     \<Longrightarrow> player_loop L players stats payloads
           = Inr (payloads @ concat (map (\<lambda>pl. map (f pl) stats) players))"
proof (induction players arbitrary: payloads)
  case Nil
  show ?case by simp
next
  case (Cons pl players)
  have "stat_loop L pl stats payloads = Inr (payloads @ map (f pl) stats)"
    using Cons.prems by (intro stat_loop_ok) simp
  moreover have "player_loop L players stats (payloads @ map (f pl) stats)
      = Inr ((payloads @ map (f pl) stats) @ concat (map (\<lambda>pl. map (f pl) stats) players))"
    using Cons.prems by (intro Cons.IH) simp
  ultimately show ?case by simp
qed

lemma py_getitem_dict_str:
  "py_getitem (PDict items) (PStr k)
     = (case map_of items (PStr k) of None \<Rightarrow> Inl KeyError | Some x \<Rightarrow> Inr x)"
  by (simp add: py_getitem_def)

lemma make_payload_dict:
  "map_of items (PStr ''player_name'') = Some name \<Longrightarrow> map_of items (PStr stat) = Some v
     \<Longrightarrow> make_payload L (PDict items) stat
           = Inr (py_str L name @ '' '' @ title (replace_char CHR ''_'' CHR '' '' stat)
                  @ '' '' @ py_str L v)"
  by (simp add: make_payload_def py_getitem_dict_str)

lemmas title_eval =
  title_def replace_char_def is_lower_def is_upper_def to_upper_def to_lower_def
  ascii_lowercase_def ascii_uppercase_def

lemma stat_labels:
  "map (\<lambda>stat. title (replace_char CHR ''_'' CHR '' '' stat)) stats_to_check
     = [''Goals'', ''Assists'', ''Passes'', ''Tackles'', ''Redcards'']"
  by (simp add: stats_to_check_def title_eval)

text \<open>The five payloads of one exported player.\<close>

lemma player_json_goals:
  "make_payload L (player_json pl) ''goals''
     = Inr (py_str L (player_name pl) @ '' Goals '' @ str_int (goals pl))"
  by (simp add: player_json_def make_payload_def py_getitem_dict_str py_str_def title_eval)

lemma player_json_assists:
  "make_payload L (player_json pl) ''assists''
     = Inr (py_str L (player_name pl) @ '' Assists '' @ str_int (assists pl))"
  by (simp add: player_json_def make_payload_def py_getitem_dict_str py_str_def title_eval)

lemma player_json_passes:
  "make_payload L (player_json pl) ''passes''
     = Inr (py_str L (player_name pl) @ '' Passes '' @ str_int (passes pl))"
  by (simp add: player_json_def make_payload_def py_getitem_dict_str py_str_def title_eval)

lemma player_json_tackles:
  "make_payload L (player_json pl) ''tackles''
     = Inr (py_str L (player_name pl) @ '' Tackles '' @ str_int (tackles pl))"
  by (simp add: player_json_def make_payload_def py_getitem_dict_str py_str_def title_eval)

lemma player_json_redcards:
  "make_payload L (player_json pl) ''redcards''
     = Inr (py_str L (player_name pl) @ '' Redcards '' @ str_int (redcards pl))"
  by (simp add: player_json_def make_payload_def py_getitem_dict_str py_str_def title_eval)

lemma export_clubs_lookup:
  "distinct (map fst pbc) \<Longrightarrow>
     map_of (export_clubs pbc clubs) k
       = (case map_of pbc k of
            Some players \<Rightarrow> Some (PList (map player_json players))
          | None \<Rightarrow> map_of clubs k)"
proof (induction pbc arbitrary: clubs)
  case Nil
  show ?case by simp
next
  case (Cons c pbc)
  obtain cid players where c: "c = (cid, players)" by (cases c)
  have d: "distinct (map fst pbc)" and fresh: "cid \<notin> fst ` set pbc"
    using Cons.prems c by auto
  have none: "map_of pbc cid = None"
    using fresh by (simp add: map_of_eq_None_iff)
  show ?case
    using Cons.IH [OF d, of "AList.update cid (PList (map player_json players)) clubs"] c none
    by (auto simp add: AList.update_conv' split: option.splits)
qed


lemma exported_player_loop:
  "player_loop L (map player_json ps) stats_to_check payloads
     = Inr (payloads @ concat (map (\<lambda>pl.
         [py_str L (player_name pl) @ '' Goals '' @ str_int (goals pl),
          py_str L (player_name pl) @ '' Assists '' @ str_int (assists pl),
          py_str L (player_name pl) @ '' Passes '' @ str_int (passes pl),
          py_str L (player_name pl) @ '' Tackles '' @ str_int (tackles pl),
          py_str L (player_name pl) @ '' Redcards '' @ str_int (redcards pl)]) ps))"
proof (induction ps arbitrary: payloads)
  case Nil
  show ?case by simp
next
  case (Cons pl ps)
  have "stat_loop L (player_json pl) stats_to_check payloads
      = Inr (payloads @
         [py_str L (player_name pl) @ '' Goals '' @ str_int (goals pl),
          py_str L (player_name pl) @ '' Assists '' @ str_int (assists pl),
          py_str L (player_name pl) @ '' Passes '' @ str_int (passes pl),
          py_str L (player_name pl) @ '' Tackles '' @ str_int (tackles pl),
          py_str L (player_name pl) @ '' Redcards '' @ str_int (redcards pl)])"
    by (simp add: stats_to_check_def player_json_goals player_json_assists player_json_passes
        player_json_tackles player_json_redcards)
  then show ?case
    using Cons.IH by simp
qed

lemma parse_stats_of_export:
  assumes "distinct (map fst (players_by_club m))"
    and "map_of (players_by_club m) (PStr tracked_club_id) = Some club_players"
  shows "parse_stats L (Some (PList [match_json m]))
           = player_loop L (map player_json club_players) stats_to_check []"
proof -
  have first: "py_getitem (PList [match_json m]) (PInt 0) = Inr (match_json m)"
    by (simp add: py_getitem_def py_index_def seq_position_def)
  have clubs: "py_getitem (match_json m) (PStr ''clubs'')
      = Inr (PDict (export_clubs (players_by_club m) []))"
    by (simp add: match_json_def py_getitem_dict_str)
  have club: "py_getitem (PDict (export_clubs (players_by_club m) [])) (PStr tracked_club_id)
      = Inr (PList (map player_json club_players))"
    using assms by (simp add: py_getitem_dict_str export_clubs_lookup)
  show ?thesis
    by (simp add: parse_stats_def first clubs club py_iter_def)
qed

subsection \<open>Two rounds on the sample rows\<close>

lemmas sample_round_eval =
  main_round_def parse_csv_def read_csv_def check_for_new_matches_def
  load_most_recent_matches_def read_history_csv_def new_match_ids_def
  update_most_recent_matches_def sample_data_frame_file
  export_most_recent_match_to_json_def init_world_def init_parser_def sample_sink_def
  Let_def

lemma sample_export_1:
  "parse_stats sample_lib
     (Some (PList [match_json (sample_match ''1001'' [sample_player ''101'' ''Alice'' 2 1])]))
   = Inr [''Alice Goals 2'', ''Alice Assists 1'', ''Alice Passes 0'', ''Alice Tackles 0'',
          ''Alice Redcards 0'']"
proof -
  have "parse_stats sample_lib
     (Some (PList [match_json (sample_match ''1001'' [sample_player ''101'' ''Alice'' 2 1])]))
    = player_loop sample_lib (map player_json [sample_player ''101'' ''Alice'' 2 1]) stats_to_check []"
    by (rule parse_stats_of_export) (simp_all add: sample_match_def tracked_club_id_def)
  then show ?thesis
    by (simp only: exported_player_loop)
       (simp add: sample_player_def py_str_def str_int_def str_nat.simps digit_char_def)
qed

lemma sample_json: "json_dump_load sample_lib v = Inr v"
  by (simp add: sample_lib_def)

lemma sample_round_1:
  "main_round sample_lib sample_sink (Some [sample_row 1001 (PStr players_text_1)]) init_world
   = Inr ([''Alice Goals 2'', ''Alice Assists 1'', ''Alice Passes 0'', ''Alice Tackles 0'',
           ''Alice Redcards 0''],
          \<lparr>match_parser =
             \<lparr>matches = [sample_match ''1001'' [sample_player ''101'' ''Alice'' 2 1]],
              most_recent_match = None, new_matches_detected = True\<rparr>,
           club_matches_csv = Some [sample_row 1001 (PStr players_text_1)],
           most_recent_matches_csv =
             Table_file (current_matches_data
                     [sample_match ''1001'' [sample_player ''101'' ''Alice'' 2 1]]),
           newest_match_json =
             Some (PList [match_json (sample_match ''1001'' [sample_player ''101'' ''Alice'' 2 1])]),
           delivered = [''Alice Goals 2'', ''Alice Assists 1'', ''Alice Passes 0'',
                        ''Alice Tackles 0'', ''Alice Redcards 0'']\<rparr>)"
  by (simp add: sample_round_eval sample_row_1 sample_export_1 sample_json)


lemma sample_check_2:
  "check_for_new_matches sample_lib
     (Table_file (current_matches_data [sample_match ''1001'' [sample_player ''101'' ''Alice'' 2 1]]))
     \<lparr>matches = [sample_match ''1001'' [sample_player ''101'' ''Alice'' 2 1],
                 sample_match ''1002'' [sample_player ''101'' ''Alice'' 5 0],
                 sample_match ''1001'' [sample_player ''101'' ''Alice'' 2 1]],
      most_recent_match = None, new_matches_detected = True\<rparr>
   = Inr (True,
          \<lparr>matches = [sample_match ''1001'' [sample_player ''101'' ''Alice'' 2 1],
                      sample_match ''1002'' [sample_player ''101'' ''Alice'' 5 0],
                      sample_match ''1001'' [sample_player ''101'' ''Alice'' 2 1]],
           most_recent_match = None, new_matches_detected = True\<rparr>)"
  by (simp add: sample_hist_eval)

lemma sample_round_2:
  "map_sum id fst
     (main_round sample_lib sample_sink
        (Some [sample_row 1002 (PStr players_text_2), sample_row 1001 (PStr players_text_1)])
        \<lparr>match_parser =
             \<lparr>matches = [sample_match ''1001'' [sample_player ''101'' ''Alice'' 2 1]],
              most_recent_match = None, new_matches_detected = True\<rparr>,
           club_matches_csv = Some [sample_row 1001 (PStr players_text_1)],
           most_recent_matches_csv =
             Table_file (current_matches_data
                     [sample_match ''1001'' [sample_player ''101'' ''Alice'' 2 1]]),
           newest_match_json =
             Some (PList [match_json (sample_match ''1001'' [sample_player ''101'' ''Alice'' 2 1])]),
           delivered = [''Alice Goals 2'', ''Alice Assists 1'', ''Alice Passes 0'',
                        ''Alice Tackles 0'', ''Alice Redcards 0'']\<rparr>)
   = Inr [''Alice Goals 2'', ''Alice Assists 1'', ''Alice Passes 0'', ''Alice Tackles 0'',
          ''Alice Redcards 0'']"
  by (simp add: main_round_def parse_csv_def read_csv_def export_most_recent_match_to_json_def
      sample_sink_def Let_def sample_row_1 sample_row_2 sample_check_2 update_Table_file
      sample_export_1 sample_json)

text \<open>The result of \<^verbatim>\<open>_parse_match_row\<close> depends on the cell \<^verbatim>\<open>players\<close> only
  through what the text of the cell decodes to.\<close>

lemma parse_match_row_players_cell:
  assumes "decode_players L (py_str L c) = decode_players L (py_str L c')"
  shows "parse_match_row L (row(''players'' \<mapsto> c)) = parse_match_row L (row(''players'' \<mapsto> c'))"
  using assms by (simp add: parse_match_row_def row_get_def)

lemma py_str_of_text [simp]: "py_str L (PStr s) = s"
  by (simp add: py_str_def)

subsection \<open>The merged table, before it is written\<close>

text \<open>In the table that \<^verbatim>\<open>update_most_recent_matches\<close> writes over an existing file no
  two lines have the same key as Python values, and a key of a new line is held by the
  last new line with that key.\<close>

lemma merged_table_keys:
  assumes "e \<in> set (current_matches_data (matches p))"
  shows "\<exists>merged. update_most_recent_matches L (Table_file written) p = Inr (Table_file merged)
           \<and> distinct (map hkey merged)
           \<and> filter (\<lambda>x. hkey x = hkey e) merged
               = [last (filter (\<lambda>x. hkey x = hkey e) (current_matches_data (matches p)))]"
proof -
  let ?cur = "current_matches_data (matches p)"
  let ?merged = "drop_duplicates_last hkey (csv_read_back L written @ ?cur)"
  have ne: "matches p \<noteq> []"
    using assms by (auto simp add: current_matches_data_def)
  have run: "update_most_recent_matches L (Table_file written) p = Inr (Table_file ?merged)"
    using ne by (rule update_Table_file)
  have d: "distinct (map hkey ?merged)"
    by (rule ddl_distinct)
  have cur_ne: "filter (\<lambda>x. hkey x = hkey e) ?cur \<noteq> []"
    using assms by (auto simp add: filter_empty_conv)
  have new: "filter (\<lambda>x. hkey x = hkey e) ?merged = [last (filter (\<lambda>x. hkey x = hkey e) ?cur)]"
    using assms cur_ne by (simp add: ddl_filter_key)
  show ?thesis
    using run d new by blast
qed

text \<open>A second merge of the same matches writes the same table when the table of the
  first merge is read back as it was written.\<close>

lemma second_merge_same_if_read_back_same:
  assumes "update_most_recent_matches L (Table_file written) p = Inr (Table_file merged)"
    and "csv_read_back L merged = merged"
  shows "update_most_recent_matches L (Table_file merged) p = Inr (Table_file merged)"
proof (cases "matches p = []")
  case True
  then show ?thesis by (simp add: update_no_matches)
next
  case False
  have m: "merged = drop_duplicates_last hkey
      (csv_read_back L written @ current_matches_data (matches p))"
    using assms(1) False by (simp add: update_Table_file)
  have "drop_duplicates_last hkey (merged @ current_matches_data (matches p)) = merged"
    unfolding m by (rule ddl_merge_twice)
  then show ?thesis
    using False assms(2) by (simp add: update_Table_file)
qed

section \<open>The claims\<close>

text \<open>
  Claim C1 says that the payloads of a round come from the most recent of the matches
  found new in that round. The code departs from it from the second detection on, since
  \<^verbatim>\<open>parse_csv\<close> never clears \<^verbatim>\<open>self.matches\<close>: started with no files, a first round
  that fetches match 1001 sends the payloads of match 1001, and a second round that
  fetches the new match 1002 ahead of 1001 finds 1002 new, and sends the payloads of
  match 1001 again (2 goals), not those of match 1002 (5 goals).
\<close>

theorem second_round_sends_first_match:
  "ebind (main_round sample_lib sample_sink
            (Some [sample_row 1001 (PStr players_text_1)]) init_world)
     (\<lambda>(sent1, w1).
        map_sum id
          (\<lambda>(sent2, w2).
             (sent1, sent2,
              map match_id
                (new_matches (known_ids sample_lib (most_recent_matches_csv w1))
                   (parse_rows sample_lib
                      [sample_row 1002 (PStr players_text_2),
                       sample_row 1001 (PStr players_text_1)] []))))
          (main_round sample_lib sample_sink
             (Some [sample_row 1002 (PStr players_text_2),
                    sample_row 1001 (PStr players_text_1)]) w1))
   = Inr ([''Alice Goals 2'', ''Alice Assists 1'', ''Alice Passes 0'', ''Alice Tackles 0'',
           ''Alice Redcards 0''],
          [''Alice Goals 2'', ''Alice Assists 1'', ''Alice Passes 0'', ''Alice Tackles 0'',
           ''Alice Redcards 0''],
          [''1002''])"
proof -
  let ?w1 = "\<lparr>match_parser =
             \<lparr>matches = [sample_match ''1001'' [sample_player ''101'' ''Alice'' 2 1]],
              most_recent_match = None, new_matches_detected = True\<rparr>,
           club_matches_csv = Some [sample_row 1001 (PStr players_text_1)],
           most_recent_matches_csv =
             Table_file (current_matches_data
                     [sample_match ''1001'' [sample_player ''101'' ''Alice'' 2 1]]),
           newest_match_json =
             Some (PList [match_json (sample_match ''1001'' [sample_player ''101'' ''Alice'' 2 1])]),
           delivered = [''Alice Goals 2'', ''Alice Assists 1'', ''Alice Passes 0'',
                        ''Alice Tackles 0'', ''Alice Redcards 0'']\<rparr>"
  let ?second = "main_round sample_lib sample_sink
             (Some [sample_row 1002 (PStr players_text_2),
                    sample_row 1001 (PStr players_text_1)]) ?w1"
  obtain w2 where second: "?second
      = Inr ([''Alice Goals 2'', ''Alice Assists 1'', ''Alice Passes 0'', ''Alice Tackles 0'',
              ''Alice Redcards 0''], w2)"
    using sample_round_2 by (cases ?second) auto
  have new: "map match_id
      (new_matches
         (known_ids sample_lib (Table_file (current_matches_data
                     [sample_match ''1001'' [sample_player ''101'' ''Alice'' 2 1]])))
         (parse_rows sample_lib
            [sample_row 1002 (PStr players_text_2), sample_row 1001 (PStr players_text_1)] []))
      = [''1002'']"
    by (simp add: sample_row_1 sample_row_2 sample_hist_eval)
  show ?thesis
    by (simp only: sample_round_1 ebind_Inr prod.case world.simps second new map_sum.simps id_apply)
qed

text \<open>
  Claim C2. Every call of \<^verbatim>\<open>parse_csv\<close> appends the matches parsed from the file,
  in file order, to \<^verbatim>\<open>self.matches\<close>, which is never cleared. Called twice on the
  same file, the parser holds the parsed matches twice. From a fresh parser, after any
  number of further calls, \<^verbatim>\<open>self.matches[0]\<close> is still the first match of the
  first parse (the first row of the file, when that row parses), and it is the match
  that \<^verbatim>\<open>get_most_recent_match\<close> and \<^verbatim>\<open>export_most_recent_match_to_json\<close>
  take as the most recent one. The other methods that change the parser,
  \<^verbatim>\<open>check_for_new_matches\<close> and \<^verbatim>\<open>get_most_recent_match\<close>, leave
  \<^verbatim>\<open>self.matches\<close> as it is; the former raises, before it changes anything, when
  there are matches and the history file has no header.
\<close>

theorem parse_csv_accumulates:
  "parse_csv L (Some rows) p =
     Inr (matches p @ parse_rows L rows [], p\<lparr>matches := matches p @ parse_rows L rows []\<rparr>)
   \<and> (\<exists>p'. parse_csv_calls L [rows, rows] p = Inr p'
          \<and> matches p' = matches p @ parse_rows L rows [] @ parse_rows L rows [])
   \<and> (\<exists>p'. parse_csv_calls L (rows # later) init_parser = Inr p'
          \<and> matches p' = parse_rows L rows [] @ concat (map (\<lambda>r. parse_rows L r []) later)
          \<and> (parse_rows L rows [] \<noteq> [] \<longrightarrow>
                matches p' ! 0 = parse_rows L rows [] ! 0
              \<and> map_option mr_match_id (fst (get_most_recent_match p'))
                  = Some (match_id (parse_rows L rows [] ! 0))
              \<and> export_most_recent_match_to_json L p' json_file
                  = ebind (json_dump_load L (PList [match_json (parse_rows L rows [] ! 0)]))
                      (\<lambda>data. Inr (Some data)))
          \<and> (\<forall>r rs m. rows = r # rs \<and> parse_match_row L r = Inr m \<longrightarrow> matches p' ! 0 = m))
   \<and> matches (snd (get_most_recent_match p)) = matches p
   \<and> map_sum id (\<lambda>(has_new, p'). matches p') (check_for_new_matches L hist_file p)
       = (if matches p \<noteq> [] \<and> hist_file = Blank_file then Inl EmptyDataError
          else Inr (matches p))"
  (is "?one \<and> ?twice \<and> ?first \<and> ?get \<and> ?check")
proof (intro conjI)
  show ?one
    by (rule parse_csv_Some)
next
  show ?twice
    using parse_csv_calls_matches [of L "[rows, rows]" p] by auto
next
  obtain p' :: "'a MatchPlayerParser"
    where run: "parse_csv_calls L (rows # later) init_parser = Inr p'"
      and ms: "matches p' = matches (init_parser :: 'a MatchPlayerParser)
                 @ concat (map (\<lambda>r. parse_rows L r []) (rows # later))"
    using parse_csv_calls_matches [of L "rows # later" init_parser] by blast
  have ms': "matches p' = parse_rows L rows [] @ concat (map (\<lambda>r. parse_rows L r []) later)"
    using ms by (simp add: init_parser_def)
  have head: "matches p' ! 0 = parse_rows L rows [] ! 0
              \<and> map_option mr_match_id (fst (get_most_recent_match p'))
                  = Some (match_id (parse_rows L rows [] ! 0))
              \<and> export_most_recent_match_to_json L p' json_file
                  = ebind (json_dump_load L (PList [match_json (parse_rows L rows [] ! 0)]))
                      (\<lambda>data. Inr (Some data))"
    if ne: "parse_rows L rows [] \<noteq> []"
  proof -
    obtain m rest where first: "parse_rows L rows [] = m # rest"
      using ne by (cases "parse_rows L rows []") auto
    have shape: "matches p' = m # rest @ concat (map (\<lambda>r. parse_rows L r []) later)"
      using ms' first by simp
    show ?thesis
      using shape first
      by (simp add: get_most_recent_match_def export_most_recent_match_to_json_def Let_def)
  qed
  have top: "matches p' ! 0 = m" if "rows = r # rs" and "parse_match_row L r = Inr m" for r rs m
  proof -
    have "parse_rows L rows [] = [m] @ parse_rows L rs []"
      using that parse_rows_acc [of L rs "[m]"] by simp
    then show ?thesis
      using ms' by simp
  qed
  show ?first
    using run ms' head top by blast
next
  show ?get
    by (cases "matches p") (simp_all add: get_most_recent_match_def Let_def)
next
  show ?check
    by (simp add: check_for_new_matches_eq)
qed

theorem parse_csv_accumulates_witness:
  "parse_rows sample_lib [sample_row 1001 (PStr players_text_1)] [] \<noteq> []
   \<and> parse_match_row sample_lib (sample_row 1001 (PStr players_text_1))
       = Inr (sample_match ''1001'' [sample_player ''101'' ''Alice'' 2 1])
   \<and> (\<exists>p'. parse_csv_calls sample_lib
               [[sample_row 1001 (PStr players_text_1)],
                [sample_row 1002 (PStr players_text_2), sample_row 1001 (PStr players_text_1)]]
               init_parser = Inr p'
          \<and> map match_id (matches p') = [''1001'', ''1002'', ''1001'']
          \<and> matches p' ! 0 = sample_match ''1001'' [sample_player ''101'' ''Alice'' 2 1]
          \<and> map_option mr_match_id (fst (get_most_recent_match p')) = Some ''1001'')"
proof -
  have first: "parse_rows sample_lib [sample_row 1001 (PStr players_text_1)] []
      = [sample_match ''1001'' [sample_player ''101'' ''Alice'' 2 1]]"
    by (simp add: sample_row_1)
  from parse_csv_accumulates [of sample_lib "[sample_row 1001 (PStr players_text_1)]"
      init_parser
      "[[sample_row 1002 (PStr players_text_2), sample_row 1001 (PStr players_text_1)]]" None
      No_file]
  obtain p' where run: "parse_csv_calls sample_lib
               [[sample_row 1001 (PStr players_text_1)],
                [sample_row 1002 (PStr players_text_2), sample_row 1001 (PStr players_text_1)]]
               init_parser = Inr p'"
    and ms: "matches p' = parse_rows sample_lib [sample_row 1001 (PStr players_text_1)] []
        @ concat (map (\<lambda>r. parse_rows sample_lib r [])
            [[sample_row 1002 (PStr players_text_2), sample_row 1001 (PStr players_text_1)]])"
    and head: "parse_rows sample_lib [sample_row 1001 (PStr players_text_1)] [] \<noteq> [] \<longrightarrow>
        matches p' ! 0 = parse_rows sample_lib [sample_row 1001 (PStr players_text_1)] [] ! 0
      \<and> map_option mr_match_id (fst (get_most_recent_match p'))
          = Some (match_id (parse_rows sample_lib [sample_row 1001 (PStr players_text_1)] [] ! 0))
      \<and> export_most_recent_match_to_json sample_lib p' None
          = ebind (json_dump_load sample_lib
                (PList [match_json (parse_rows sample_lib
                   [sample_row 1001 (PStr players_text_1)] [] ! 0)]))
              (\<lambda>data. Inr (Some data))"
    by blast
  have ids: "map match_id (matches p') = [''1001'', ''1002'', ''1001'']"
    unfolding ms first by (simp add: sample_row_1 sample_row_2 sample_match_def)
  note head = head [unfolded first]
  have top: "matches p' ! 0 = sample_match ''1001'' [sample_player ''101'' ''Alice'' 2 1]"
    using head by simp
  have mr: "map_option mr_match_id (fst (get_most_recent_match p')) = Some ''1001''"
    using head by (simp add: sample_match_def)
  show ?thesis
    using first run ids top mr sample_row_1 by auto
qed

text \<open>
  Claim C3, as amended. When the history file is absent or holds a table, and also
  when the batch is empty, \<^verbatim>\<open>check_for_new_matches\<close> returns one boolean, and
  writes it to \<^verbatim>\<open>new_matches_detected\<close> unless the batch is empty: it is true
  exactly when the id of some parsed match is not among the known ids, so it depends on
  the ids alone and is true exactly when the ordered subset of new matches is not
  empty. The subset itself is not part of the result. For a batch with the ids A, B, C
  and the known ids A and B, the local set \<^verbatim>\<open>new_match_ids\<close> is {C} and the result
  is true. When the batch is not empty and the history file is the one without a
  header, the detector returns nothing: the \<^verbatim>\<open>EmptyDataError\<close> of the read leaves
  it.
\<close>

theorem detector_returns_any_new:
  "check_for_new_matches L hist_file p =
     (if matches p \<noteq> [] \<and> hist_file = Blank_file then Inl EmptyDataError
      else Inr (\<exists>i \<in> set (map match_id (matches p)). i \<notin> known_ids L hist_file,
                if matches p = [] then p
                else p\<lparr>new_matches_detected :=
                         (\<exists>i \<in> set (map match_id (matches p)). i \<notin> known_ids L hist_file)\<rparr>))
   \<and> ((\<exists>i \<in> set (map match_id (matches p)). i \<notin> known_ids L hist_file)
        \<longleftrightarrow> new_matches (known_ids L hist_file) (matches p) \<noteq> [])
   \<and> (map match_id (matches p) = [A, B, C] \<and> known_ids L (Table_file written) = {A, B}
        \<and> C \<noteq> A \<and> C \<noteq> B
        \<longrightarrow> new_match_ids L (csv_read_back L written) (matches p) = {C}
          \<and> check_for_new_matches L (Table_file written) p
              = Inr (True, p\<lparr>new_matches_detected := True\<rparr>))"
  (is "?result \<and> ?subset \<and> ?example")
proof (intro conjI)
  show ?result
    using check_for_new_matches_eq [of L hist_file p] by simp
  show ?subset
    using new_matches_nonempty_iff [of "known_ids L hist_file" "matches p"] by simp
  show ?example
  proof
    assume a: "map match_id (matches p) = [A, B, C] \<and> known_ids L (Table_file written) = {A, B}
        \<and> C \<noteq> A \<and> C \<noteq> B"
    then have ids: "set (map match_id (matches p)) = {A, B, C}"
      by simp
    have known: "set (map (\<lambda>e. py_str L (h_matchId e)) (csv_read_back L written)) = {A, B}"
      using a by (simp add: known_ids_def del: set_map)
    have batch: "map match_id (matches p) = [A, B, C]"
      using a by (rule conjunct1)
    have ne: "matches p \<noteq> []"
      using batch by auto
    have cne: "C \<noteq> A" "C \<noteq> B"
      using a by simp_all
    have "new_match_ids L (csv_read_back L written) (matches p) = {A, B, C} - {A, B}"
      by (simp only: new_match_ids_def Let_def ids known)
    also have "\<dots> = {C}"
      using cne by auto
    finally have diff: "new_match_ids L (csv_read_back L written) (matches p) = {C}" .
    have "\<exists>m \<in> set (matches p). match_id m \<notin> known_ids L (Table_file written)"
      using new_match_ids_empty_iff [of L "csv_read_back L written" "matches p"] diff
      by (simp add: known_ids_def del: set_map)
    then show "new_match_ids L (csv_read_back L written) (matches p) = {C}
          \<and> check_for_new_matches L (Table_file written) p
              = Inr (True, p\<lparr>new_matches_detected := True\<rparr>)"
      using diff ne check_for_new_matches_eq [of L "Table_file written" p] by simp
  qed
qed

text \<open>
  Claim C3 as stated fails: the result of the detector does not hold the subset of new
  matches. On the batches A, B, C and A, B, D with the known ids A and B, read from a
  history file of two lines, the new subsets differ, [C] and [D], and the detector
  returns the same value, true.
\<close>

theorem detector_output_has_no_subset:
  "map_sum id fst
     (check_for_new_matches sample_lib
        (Table_file (current_matches_data
                 [sample_match ''A'' [sample_player ''101'' ''Alice'' 2 1],
                  sample_match ''B'' [sample_player ''101'' ''Alice'' 0 0]]))
        (sample_parser [sample_match ''A'' [], sample_match ''B'' [], sample_match ''C'' []]))
     = Inr True
   \<and> map_sum id fst
     (check_for_new_matches sample_lib
        (Table_file (current_matches_data
                 [sample_match ''A'' [sample_player ''101'' ''Alice'' 2 1],
                  sample_match ''B'' [sample_player ''101'' ''Alice'' 0 0]]))
        (sample_parser [sample_match ''A'' [], sample_match ''B'' [], sample_match ''D'' []]))
     = Inr True
   \<and> new_matches
        (known_ids sample_lib (Table_file (current_matches_data
                 [sample_match ''A'' [sample_player ''101'' ''Alice'' 2 1],
                  sample_match ''B'' [sample_player ''101'' ''Alice'' 0 0]])))
        [sample_match ''A'' [], sample_match ''B'' [], sample_match ''C'' []]
     = [sample_match ''C'' []]
   \<and> new_matches
        (known_ids sample_lib (Table_file (current_matches_data
                 [sample_match ''A'' [sample_player ''101'' ''Alice'' 2 1],
                  sample_match ''B'' [sample_player ''101'' ''Alice'' 0 0]])))
        [sample_match ''A'' [], sample_match ''B'' [], sample_match ''D'' []]
     = [sample_match ''D'' []]
   \<and> sample_match ''C'' [] \<noteq> sample_match ''D'' []"
  by (simp add: sample_hist_eval)

theorem detector_returns_any_new_witness:
  "map match_id (matches (sample_parser
       [sample_match ''A'' [], sample_match ''B'' [], sample_match ''C'' []])) = [''A'', ''B'', ''C'']
   \<and> known_ids sample_lib (Table_file (current_matches_data
                 [sample_match ''A'' [sample_player ''101'' ''Alice'' 2 1],
                  sample_match ''B'' [sample_player ''101'' ''Alice'' 0 0]])) = {''A'', ''B''}
   \<and> ''C'' \<noteq> ''A'' \<and> ''C'' \<noteq> ''B''
   \<and> new_match_ids sample_lib
        (csv_read_back sample_lib (current_matches_data
                 [sample_match ''A'' [sample_player ''101'' ''Alice'' 2 1],
                  sample_match ''B'' [sample_player ''101'' ''Alice'' 0 0]]))
        [sample_match ''A'' [], sample_match ''B'' [], sample_match ''C'' []] = {''C''}
   \<and> check_for_new_matches sample_lib
        (Table_file (current_matches_data
                 [sample_match ''A'' [sample_player ''101'' ''Alice'' 2 1],
                  sample_match ''B'' [sample_player ''101'' ''Alice'' 0 0]]))
        (sample_parser [sample_match ''A'' [], sample_match ''B'' [], sample_match ''C'' []])
      = Inr (True, \<lparr>matches = [sample_match ''A'' [], sample_match ''B'' [], sample_match ''C'' []],
                    most_recent_match = None, new_matches_detected = True\<rparr>)
   \<and> update_most_recent_matches sample_lib No_file (sample_parser [sample_match ''A'' []])
      = Inr Blank_file
   \<and> check_for_new_matches sample_lib Blank_file (sample_parser [sample_match ''A'' []])
      = Inl EmptyDataError
   \<and> check_for_new_matches sample_lib Blank_file (sample_parser [])
      = Inr (False, sample_parser [])"
proof -
  have ids: "map match_id (matches (sample_parser
       [sample_match ''A'' [], sample_match ''B'' [], sample_match ''C'' []])) = [''A'', ''B'', ''C'']"
    by (simp add: sample_parser_def sample_match_def)
  have known: "known_ids sample_lib (Table_file (current_matches_data
                 [sample_match ''A'' [sample_player ''101'' ''Alice'' 2 1],
                  sample_match ''B'' [sample_player ''101'' ''Alice'' 0 0]])) = {''A'', ''B''}"
    by (simp add: sample_hist_eval)
  have neq: "''C'' \<noteq> ''A'' \<and> ''C'' \<noteq> ''B''"
    by simp
  from detector_returns_any_new
      [of sample_lib
          "Table_file (current_matches_data
                 [sample_match ''A'' [sample_player ''101'' ''Alice'' 2 1],
                  sample_match ''B'' [sample_player ''101'' ''Alice'' 0 0]])"
          "sample_parser [sample_match ''A'' [], sample_match ''B'' [], sample_match ''C'' []]"
          "''A''" "''B''" "''C''"
          "current_matches_data
                 [sample_match ''A'' [sample_player ''101'' ''Alice'' 2 1],
                  sample_match ''B'' [sample_player ''101'' ''Alice'' 0 0]]"]
    ids known neq
  have "new_match_ids sample_lib
        (csv_read_back sample_lib (current_matches_data
                 [sample_match ''A'' [sample_player ''101'' ''Alice'' 2 1],
                  sample_match ''B'' [sample_player ''101'' ''Alice'' 0 0]]))
        (matches (sample_parser [sample_match ''A'' [], sample_match ''B'' [], sample_match ''C'' []]))
        = {''C''}
     \<and> check_for_new_matches sample_lib
        (Table_file (current_matches_data
                 [sample_match ''A'' [sample_player ''101'' ''Alice'' 2 1],
                  sample_match ''B'' [sample_player ''101'' ''Alice'' 0 0]]))
        (sample_parser [sample_match ''A'' [], sample_match ''B'' [], sample_match ''C'' []])
      = Inr (True, (sample_parser [sample_match ''A'' [], sample_match ''B'' [],
                      sample_match ''C'' []])\<lparr>new_matches_detected := True\<rparr>)"
    by blast
  then have table: "check_for_new_matches sample_lib
        (Table_file (current_matches_data
                 [sample_match ''A'' [sample_player ''101'' ''Alice'' 2 1],
                  sample_match ''B'' [sample_player ''101'' ''Alice'' 0 0]]))
        (sample_parser [sample_match ''A'' [], sample_match ''B'' [], sample_match ''C'' []])
      = Inr (True, \<lparr>matches = [sample_match ''A'' [], sample_match ''B'' [], sample_match ''C'' []],
                    most_recent_match = None, new_matches_detected = True\<rparr>)"
    and diff: "new_match_ids sample_lib
        (csv_read_back sample_lib (current_matches_data
                 [sample_match ''A'' [sample_player ''101'' ''Alice'' 2 1],
                  sample_match ''B'' [sample_player ''101'' ''Alice'' 0 0]]))
        [sample_match ''A'' [], sample_match ''B'' [], sample_match ''C'' []] = {''C''}"
    by (simp_all add: sample_parser_def)
  have written: "update_most_recent_matches sample_lib No_file (sample_parser [sample_match ''A'' []])
      = Inr Blank_file"
    by (simp add: sample_update_eval)
  have raised: "check_for_new_matches sample_lib Blank_file (sample_parser [sample_match ''A'' []])
      = Inl EmptyDataError"
    by (simp add: check_for_new_matches_def sample_parser_def)
  have empty_batch: "check_for_new_matches sample_lib Blank_file (sample_parser [])
      = Inr (False, sample_parser [])"
    by (simp add: check_for_new_matches_def sample_parser_def)
  show ?thesis
    by (intro conjI ids known conjunct1 [OF neq] conjunct2 [OF neq] diff table written
        raised empty_batch)
qed

text \<open>
  Claim C4. An absent history file is not an error: \<^verbatim>\<open>load_most_recent_matches\<close>
  returns \<^verbatim>\<open>None\<close>, the detector returns true for every batch that has a match
  (an empty batch has nothing new and gives false), and every match of the batch is
  new.
\<close>

theorem absent_history_is_first_run:
  "load_most_recent_matches L No_file = Inr None
   \<and> check_for_new_matches L No_file p =
       Inr (matches p \<noteq> [], if matches p = [] then p else p\<lparr>new_matches_detected := True\<rparr>)
   \<and> new_matches (known_ids L No_file) (matches p) = matches p"
  by (simp add: check_for_new_matches_def known_ids_def new_matches_def)




text \<open>
  Claim C6 says that a new line replaces the line of the history file that has the same
  pair of \<^verbatim>\<open>matchId\<close> and \<^verbatim>\<open>player_id\<close>, so that the file holds no pair twice.
  The code departs from it for ids written in digits. The file holds the line of match
  1001 and player 101 with 2 goals; the parser holds match 1001 with player 101 and 5
  goals. \<^verbatim>\<open>pd.read_csv\<close> gives the ids of the file as integers, the new line has them
  as strings, \<^verbatim>\<open>drop_duplicates\<close> keeps both lines, and the file written holds the
  pair twice, with 2 goals and with 5 goals.
\<close>

theorem rewritten_line_is_kept_twice:
  "update_most_recent_matches sample_lib
     (Table_file (current_matches_data [sample_match ''1001'' [sample_player ''101'' ''Alice'' 2 1]]))
     (sample_parser [sample_match ''1001'' [sample_player ''101'' ''Alice'' 5 0]])
   = Inr (Table_file (sample_read_back
                        (current_matches_data [sample_match ''1001'' [sample_player ''101'' ''Alice'' 2 1]])
                      @ current_matches_data [sample_match ''1001'' [sample_player ''101'' ''Alice'' 5 0]]))
   \<and> map (\<lambda>e. (hkey e, h_goals e))
        (sample_read_back
           (current_matches_data [sample_match ''1001'' [sample_player ''101'' ''Alice'' 2 1]])
         @ current_matches_data [sample_match ''1001'' [sample_player ''101'' ''Alice'' 5 0]])
     = [((PInt 1001, PInt 101), 2), ((PStr ''1001'', PStr ''101''), 5)]
   \<and> map (\<lambda>e. (py_str sample_lib (h_matchId e), py_str sample_lib (h_player_id e), h_goals e))
        (sample_read_back
           (current_matches_data [sample_match ''1001'' [sample_player ''101'' ''Alice'' 2 1]])
         @ current_matches_data [sample_match ''1001'' [sample_player ''101'' ''Alice'' 5 0]])
     = [(''1001'', ''101'', 2), (''1001'', ''101'', 5)]
   \<and> map (\<lambda>e. (hkey e, h_goals e))
        (csv_read_back sample_lib
           (sample_read_back
              (current_matches_data [sample_match ''1001'' [sample_player ''101'' ''Alice'' 2 1]])
            @ current_matches_data [sample_match ''1001'' [sample_player ''101'' ''Alice'' 5 0]]))
     = [((PInt 1001, PInt 101), 2), ((PInt 1001, PInt 101), 5)]"
  by (simp add: sample_update_eval py_str_def str_int_def str_nat.simps digit_char_def)

text \<open>
  Claim C7 says that merging the same matches twice leaves the history file as merging
  them once does. The code departs from it for ids written in digits. With no history
  file, the first merge of match 1001 with player 101 writes one line. The second merge
  of the same match reads the ids of that line as integers, keeps the line beside the
  new one, whose ids are strings, and writes two lines.
\<close>

theorem second_merge_changes_the_file:
  "update_most_recent_matches sample_lib No_file
     (sample_parser [sample_match ''1001'' [sample_player ''101'' ''Alice'' 2 1]])
   = Inr (Table_file (current_matches_data [sample_match ''1001'' [sample_player ''101'' ''Alice'' 2 1]]))
   \<and> update_most_recent_matches sample_lib
     (Table_file (current_matches_data [sample_match ''1001'' [sample_player ''101'' ''Alice'' 2 1]]))
     (sample_parser [sample_match ''1001'' [sample_player ''101'' ''Alice'' 2 1]])
   = Inr (Table_file (sample_read_back
                        (current_matches_data [sample_match ''1001'' [sample_player ''101'' ''Alice'' 2 1]])
                      @ current_matches_data [sample_match ''1001'' [sample_player ''101'' ''Alice'' 2 1]]))
   \<and> length (current_matches_data [sample_match ''1001'' [sample_player ''101'' ''Alice'' 2 1]]) = 1
   \<and> length (sample_read_back
                (current_matches_data [sample_match ''1001'' [sample_player ''101'' ''Alice'' 2 1]])
              @ current_matches_data [sample_match ''1001'' [sample_player ''101'' ''Alice'' 2 1]]) = 2
   \<and> map (\<lambda>e. (py_str sample_lib (h_matchId e), py_str sample_lib (h_player_id e), h_goals e))
        (sample_read_back
           (current_matches_data [sample_match ''1001'' [sample_player ''101'' ''Alice'' 2 1]])
         @ current_matches_data [sample_match ''1001'' [sample_player ''101'' ''Alice'' 2 1]])
     = [(''1001'', ''101'', 2), (''1001'', ''101'', 2)]"
  by (simp add: sample_update_eval py_str_def str_int_def str_nat.simps digit_char_def)

text \<open>
  Claim C8. The fact extractor makes one payload for each pair of a player and a
  tracked statistic, players first and statistics within a player, and each payload is
  the player's name, the title-cased name of the statistic and the value, separated by
  single spaces. For the player Alice with 2 goals and 1 assist and the tracked
  statistics goals and assists the payloads are \<^verbatim>\<open>Alice Goals 2\<close> and
  \<^verbatim>\<open>Alice Assists 1\<close>. On the export of a match, with the list of the source (goals,
  assists, passes, tackles, redcards), \<^verbatim>\<open>parse_stats\<close> returns these five payloads
  for each player of the tracked club.
\<close>

theorem fact_extractor_payloads:
  "((\<forall>pl \<in> set players. \<forall>stat \<in> set stats. make_payload L pl stat = Inr (f pl stat))
      \<longrightarrow> player_loop L players stats [] = Inr (concat (map (\<lambda>pl. map (f pl) stats) players)))
   \<and> (map_of items (PStr ''player_name'') = Some name \<and> map_of items (PStr stat) = Some v
      \<longrightarrow> make_payload L (PDict items) stat
            = Inr (py_str L name @ '' '' @ title (replace_char CHR ''_'' CHR '' '' stat)
                   @ '' '' @ py_str L v))
   \<and> player_loop L
        [PDict [(PStr ''player_name'', PStr ''Alice''), (PStr ''goals'', PInt 2),
                (PStr ''assists'', PInt 1)]]
        [''goals'', ''assists''] []
      = Inr [''Alice Goals 2'', ''Alice Assists 1'']
   \<and> (distinct (map fst (players_by_club m))
        \<and> map_of (players_by_club m) (PStr tracked_club_id) = Some club_players
      \<longrightarrow> parse_stats L (Some (PList [match_json m]))
            = Inr (concat (map (\<lambda>pl.
                [py_str L (player_name pl) @ '' Goals '' @ str_int (goals pl),
                 py_str L (player_name pl) @ '' Assists '' @ str_int (assists pl),
                 py_str L (player_name pl) @ '' Passes '' @ str_int (passes pl),
                 py_str L (player_name pl) @ '' Tackles '' @ str_int (tackles pl),
                 py_str L (player_name pl) @ '' Redcards '' @ str_int (redcards pl)])
                club_players)))"
  (is "?loops \<and> ?form \<and> ?alice \<and> ?export")
proof (intro conjI)
  show ?loops
    using player_loop_ok [of players stats L f "[]"] by simp
  show ?form
    using make_payload_dict [of items name stat v L] by simp
  show ?alice
    by (simp add: make_payload_def py_getitem_dict_str py_str_def title_eval
        str_int_def str_nat.simps digit_char_def)
  show ?export
  proof
    assume a: "distinct (map fst (players_by_club m))
        \<and> map_of (players_by_club m) (PStr tracked_club_id) = Some club_players"
    have "parse_stats L (Some (PList [match_json m]))
        = player_loop L (map player_json club_players) stats_to_check []"
      using a by (intro parse_stats_of_export) blast+
    then show "parse_stats L (Some (PList [match_json m]))
            = Inr (concat (map (\<lambda>pl.
                [py_str L (player_name pl) @ '' Goals '' @ str_int (goals pl),
                 py_str L (player_name pl) @ '' Assists '' @ str_int (assists pl),
                 py_str L (player_name pl) @ '' Passes '' @ str_int (passes pl),
                 py_str L (player_name pl) @ '' Tackles '' @ str_int (tackles pl),
                 py_str L (player_name pl) @ '' Redcards '' @ str_int (redcards pl)])
                club_players))"
      by (simp only: exported_player_loop append_Nil)
  qed
qed

theorem fact_extractor_payloads_witness:
  "make_payload sample_lib
     (PDict [(PStr ''player_name'', PStr ''Bob''), (PStr ''pass_attempts'', PInt 12)])
     ''pass_attempts'' = Inr ''Bob Pass Attempts 12''
   \<and> player_loop sample_lib
        [PDict [(PStr ''player_name'', PStr ''Bob''), (PStr ''pass_attempts'', PInt 12)]]
        [''pass_attempts''] [] = Inr [''Bob Pass Attempts 12'']
   \<and> distinct (map fst (players_by_club
        (sample_match ''1001'' [sample_player ''101'' ''Alice'' 2 1, sample_player ''102'' ''Bob'' 0 3])))
   \<and> parse_stats sample_lib
        (Some (PList [match_json
           (sample_match ''1001'' [sample_player ''101'' ''Alice'' 2 1, sample_player ''102'' ''Bob'' 0 3])]))
      = Inr [''Alice Goals 2'', ''Alice Assists 1'', ''Alice Passes 0'', ''Alice Tackles 0'',
             ''Alice Redcards 0'',
             ''Bob Goals 0'', ''Bob Assists 3'', ''Bob Passes 0'', ''Bob Tackles 0'',
             ''Bob Redcards 0'']"
proof -
  let ?bob = "PDict [(PStr ''player_name'', PStr ''Bob''), (PStr ''pass_attempts'', PInt 12)]"
  let ?m = "sample_match ''1001'' [sample_player ''101'' ''Alice'' 2 1, sample_player ''102'' ''Bob'' 0 3]"
  note inst = fact_extractor_payloads
    [of "[?bob]" "[''pass_attempts'']" sample_lib "\<lambda>pl stat. ''Bob Pass Attempts 12''"
        "[(PStr ''player_name'', PStr ''Bob''), (PStr ''pass_attempts'', PInt 12)]"
        "PStr ''Bob''" "''pass_attempts''" "PInt 12" ?m
        "[sample_player ''101'' ''Alice'' 2 1, sample_player ''102'' ''Bob'' 0 3]"]
  have one: "make_payload sample_lib ?bob ''pass_attempts'' = Inr ''Bob Pass Attempts 12''"
    using inst by (simp add: py_str_def title_eval str_int_def str_nat.simps digit_char_def)
  have loop: "player_loop sample_lib [?bob] [''pass_attempts''] [] = Inr [''Bob Pass Attempts 12'']"
    using inst one by simp
  have d: "distinct (map fst (players_by_club ?m))"
    by (simp add: sample_match_def)
  have club: "map_of (players_by_club ?m) (PStr tracked_club_id)
      = Some [sample_player ''101'' ''Alice'' 2 1, sample_player ''102'' ''Bob'' 0 3]"
    by (simp add: sample_match_def tracked_club_id_def)
  have out: "parse_stats sample_lib (Some (PList [match_json ?m]))
      = Inr [''Alice Goals 2'', ''Alice Assists 1'', ''Alice Passes 0'', ''Alice Tackles 0'',
             ''Alice Redcards 0'',
             ''Bob Goals 0'', ''Bob Assists 3'', ''Bob Passes 0'', ''Bob Tackles 0'',
             ''Bob Redcards 0'']"
    using inst d club
    by (simp add: sample_player_def py_str_def str_int_def str_nat.simps digit_char_def)
  show ?thesis
    using one loop d out by simp
qed

text \<open>
  Claim C9. A row whose parse fails is the only one skipped: a missing column
  \<^verbatim>\<open>players\<close>, a text of the column that \<^verbatim>\<open>ast.literal_eval\<close> rejects, or a
  statistic that \<^verbatim>\<open>int()\<close> or \<^verbatim>\<open>float()\<close> rejects makes \<^verbatim>\<open>_parse_match_row\<close>
  raise; \<^verbatim>\<open>parse_csv\<close> then goes on with the rows around it, and its result holds
  exactly the matches of the rows that parse, in file order.
\<close>

theorem parse_failure_skips_one_record:
  assumes "row ''players'' = None
         \<or> (\<exists>c e. row ''players'' = Some c \<and> literal_eval L (py_str L c) = Inl e)
         \<or> (\<exists>c clubs cid ps pid st k v e.
               row ''players'' = Some c \<and> literal_eval L (py_str L c) = Inr (PDict clubs)
             \<and> (cid, PDict ps) \<in> set clubs \<and> (pid, PDict st) \<in> set ps
             \<and> map_of st (PStr k) = Some v
             \<and> (k \<in> set int_stat_keys \<and> py_int L v = Inl e
                \<or> k = ''rating'' \<and> py_float L v = Inl e))"
  shows "(\<exists>e. parse_match_row L row = Inl e)
       \<and> parse_csv L (Some (before @ row # after)) p
           = Inr (matches p @ parse_rows L before [] @ parse_rows L after [],
                  p\<lparr>matches := matches p @ parse_rows L before [] @ parse_rows L after []\<rparr>)
       \<and> parse_rows L rows []
           = List.map_filter
               (\<lambda>r. case parse_match_row L r of Inl e \<Rightarrow> None | Inr m \<Rightarrow> Some m) rows"
proof -
  have fails: "\<exists>e. parse_match_row L row = Inl e"
  proof (rule ccontr)
    assume "\<not> (\<exists>e. parse_match_row L row = Inl e)"
    then obtain m where "parse_match_row L row = Inr m"
      by (cases "parse_match_row L row") auto
    then obtain c clubs pbc where c: "row ''players'' = Some c"
      and lit: "literal_eval L (py_str L c) = Inr (PDict clubs)"
      and pbc: "parse_clubs L clubs [] = Inr pbc"
      using parse_match_row_Inr_players by blast
    from assms c lit have "\<exists>cid ps pid st k v e.
        (cid, PDict ps) \<in> set clubs \<and> (pid, PDict st) \<in> set ps \<and> map_of st (PStr k) = Some v
      \<and> (k \<in> set int_stat_keys \<and> py_int L v = Inl e \<or> k = ''rating'' \<and> py_float L v = Inl e)"
      by simp
    then obtain cid ps pid st k v e where
      club: "(cid, PDict ps) \<in> set clubs" and pl: "(pid, PDict st) \<in> set ps"
      and v: "map_of st (PStr k) = Some v"
      and bad: "k \<in> set int_stat_keys \<and> py_int L v = Inl e \<or> k = ''rating'' \<and> py_float L v = Inl e"
      by blast
    from parse_clubs_ok [OF pbc club] obtain out where
      "parse_club_players L cid ps [] = Inr out"
      by (auto simp add: py_items_def)
    from parse_club_players_ok [OF this pl] obtain x where ok: "parse_player L cid pid (PDict st) = Inr x"
      by blast
    from bad show False
      using parse_player_int_ok [OF ok _ v] parse_player_float_ok [OF ok] v by auto
  qed
  then obtain e where e: "parse_match_row L row = Inl e" by blast
  show ?thesis
    using fails failing_row_is_skipped [OF e, of before after] parse_rows_map_filter [of L rows]
    by (simp add: parse_csv_Some)
qed

theorem parse_failure_skips_one_record_witness:
  "sample_row_no_players 1005 ''players'' = None
   \<and> literal_eval sample_lib (py_str sample_lib (PStr players_text_bad)) = Inl SyntaxError
   \<and> literal_eval sample_lib (py_str sample_lib (PStr players_text_3)) = Inr players_value_3
   \<and> py_int sample_lib (PStr ''two'') = Inl ValueError
   \<and> map_sum id fst
         (parse_csv sample_lib
            (Some ([sample_row 1001 (PStr players_text_1)] @ sample_row_no_players 1005
                   # [sample_row 1002 (PStr players_text_2)])) init_parser)
       = Inr [sample_match ''1001'' [sample_player ''101'' ''Alice'' 2 1],
              sample_match ''1002'' [sample_player ''101'' ''Alice'' 5 0]]
   \<and> map_sum id fst
         (parse_csv sample_lib
            (Some ([sample_row 1001 (PStr players_text_1)] @ sample_row 1004 (PStr players_text_bad)
                   # [sample_row 1002 (PStr players_text_2)])) init_parser)
       = Inr [sample_match ''1001'' [sample_player ''101'' ''Alice'' 2 1],
              sample_match ''1002'' [sample_player ''101'' ''Alice'' 5 0]]
   \<and> map_sum id fst
         (parse_csv sample_lib
            (Some ([sample_row 1001 (PStr players_text_1)] @ sample_row 1003 (PStr players_text_3)
                   # [sample_row 1002 (PStr players_text_2)])) init_parser)
       = Inr [sample_match ''1001'' [sample_player ''101'' ''Alice'' 2 1],
              sample_match ''1002'' [sample_player ''101'' ''Alice'' 5 0]]"
proof -
  have missing: "sample_row_no_players 1005 ''players'' = None"
    by (simp add: sample_row_no_players_def)
  have malformed: "literal_eval sample_lib (py_str sample_lib (PStr players_text_bad)) = Inl SyntaxError"
    by (simp add: sample_eval)
  have decoded: "literal_eval sample_lib (py_str sample_lib (PStr players_text_3)) = Inr players_value_3"
    by (simp add: sample_eval)
  have not_a_number: "py_int sample_lib (PStr ''two'') = Inl ValueError"
    by (simp add: sample_eval)
  have r4: "sample_row 1004 (PStr players_text_bad) ''players'' = Some (PStr players_text_bad)"
    by (simp add: sample_row_def)
  have r3: "sample_row 1003 (PStr players_text_3) ''players'' = Some (PStr players_text_3)"
    by (simp add: sample_row_def)
  have goals_key: "''goals'' \<in> set int_stat_keys"
    by (simp add: int_stat_keys_def)
  have a: "map_sum id fst
             (parse_csv sample_lib
                (Some ([sample_row 1001 (PStr players_text_1)] @ sample_row_no_players 1005
                       # [sample_row 1002 (PStr players_text_2)])) init_parser)
           = Inr [sample_match ''1001'' [sample_player ''101'' ''Alice'' 2 1],
                  sample_match ''1002'' [sample_player ''101'' ''Alice'' 5 0]]"
    using parse_failure_skips_one_record
      [of "sample_row_no_players 1005" sample_lib
          "[sample_row 1001 (PStr players_text_1)]" "[sample_row 1002 (PStr players_text_2)]"
          init_parser "[]"]
      missing
    by (simp add: sample_row_1 sample_row_2 init_parser_def)
  have b: "map_sum id fst
             (parse_csv sample_lib
                (Some ([sample_row 1001 (PStr players_text_1)]
                       @ sample_row 1004 (PStr players_text_bad)
                       # [sample_row 1002 (PStr players_text_2)])) init_parser)
           = Inr [sample_match ''1001'' [sample_player ''101'' ''Alice'' 2 1],
                  sample_match ''1002'' [sample_player ''101'' ''Alice'' 5 0]]"
    using parse_failure_skips_one_record
      [of "sample_row 1004 (PStr players_text_bad)" sample_lib
          "[sample_row 1001 (PStr players_text_1)]" "[sample_row 1002 (PStr players_text_2)]"
          init_parser "[]"]
      r4 malformed
    by (simp add: sample_row_1 sample_row_2 init_parser_def)
  have "(PStr ''3439844'', PDict [(PStr ''101'',
            PDict [(PStr ''playername'', PStr ''Alice''), (PStr ''goals'', PStr ''two'')])])
          \<in> set [(PStr ''3439844'', PDict [(PStr ''101'',
            PDict [(PStr ''playername'', PStr ''Alice''), (PStr ''goals'', PStr ''two'')])])]
        \<and> (PStr ''101'', PDict [(PStr ''playername'', PStr ''Alice''), (PStr ''goals'', PStr ''two'')])
          \<in> set [(PStr ''101'',
            PDict [(PStr ''playername'', PStr ''Alice''), (PStr ''goals'', PStr ''two'')])]
        \<and> map_of [(PStr ''playername'', PStr ''Alice''), (PStr ''goals'', PStr ''two'')]
              (PStr ''goals'') = Some (PStr ''two'')
        \<and> (''goals'' \<in> set int_stat_keys \<and> py_int sample_lib (PStr ''two'') = Inl ValueError
           \<or> ''goals'' = ''rating'' \<and> py_float sample_lib (PStr ''two'') = Inl ValueError)"
    using goals_key not_a_number by simp
  then have third: "\<exists>c clubs cid ps pid st k v e.
               sample_row 1003 (PStr players_text_3) ''players'' = Some c
             \<and> literal_eval sample_lib (py_str sample_lib c) = Inr (PDict clubs)
             \<and> (cid, PDict ps) \<in> set clubs \<and> (pid, PDict st) \<in> set ps
             \<and> map_of st (PStr k) = Some v
             \<and> (k \<in> set int_stat_keys \<and> py_int sample_lib v = Inl e
                \<or> k = ''rating'' \<and> py_float sample_lib v = Inl e)"
    using r3 decoded unfolding players_value_3_def by blast
  have c: "map_sum id fst
             (parse_csv sample_lib
                (Some ([sample_row 1001 (PStr players_text_1)]
                       @ sample_row 1003 (PStr players_text_3)
                       # [sample_row 1002 (PStr players_text_2)])) init_parser)
           = Inr [sample_match ''1001'' [sample_player ''101'' ''Alice'' 2 1],
                  sample_match ''1002'' [sample_player ''101'' ''Alice'' 5 0]]"
    using parse_failure_skips_one_record
      [of "sample_row 1003 (PStr players_text_3)" sample_lib
          "[sample_row 1001 (PStr players_text_1)]" "[sample_row 1002 (PStr players_text_2)]"
          init_parser "[]"]
      third
    by (simp add: sample_row_1 sample_row_2 init_parser_def)
  show ?thesis
    using missing malformed decoded not_a_number a b c by blast
qed

text \<open>
  Claim C10, as amended. \<^verbatim>\<open>_parse_match_row\<close> turns the cell \<^verbatim>\<open>players\<close> into
  text with \<^verbatim>\<open>str\<close> and decodes the text with \<^verbatim>\<open>ast.literal_eval\<close>, whatever the
  cell is. The claim can be read in two ways. Read with the string being the text that
  \<^verbatim>\<open>str\<close> prints for the object, which is the encoding the program itself writes
  into club\_matches.csv, it holds for every object \<open>d\<close>, every other cell of the row
  and every library: both rows give the same result, a match or an error. It also
  holds for every other text \<open>s\<close> that is decoded with the same result as the text of
  the object. This is the amended claim. Read with the string being any text that
  decodes to the object, the claim fails, as shown after the theorem.
\<close>

theorem text_and_object_parse_alike:
  "parse_match_row L (row(''players'' \<mapsto> PStr (py_str L d)))
     = parse_match_row L (row(''players'' \<mapsto> d))
   \<and> (decode_players L s = decode_players L (py_str L d) \<longrightarrow>
        parse_match_row L (row(''players'' \<mapsto> PStr s))
          = parse_match_row L (row(''players'' \<mapsto> d)))"
proof
  show "parse_match_row L (row(''players'' \<mapsto> PStr (py_str L d)))
     = parse_match_row L (row(''players'' \<mapsto> d))"
    by (rule parse_match_row_players_cell) simp
next
  show "decode_players L s = decode_players L (py_str L d) \<longrightarrow>
        parse_match_row L (row(''players'' \<mapsto> PStr s))
          = parse_match_row L (row(''players'' \<mapsto> d))"
  proof
    assume "decode_players L s = decode_players L (py_str L d)"
    then have "decode_players L (py_str L (PStr s)) = decode_players L (py_str L d)"
      by simp
    then show "parse_match_row L (row(''players'' \<mapsto> PStr s))
          = parse_match_row L (row(''players'' \<mapsto> d))"
      by (rule parse_match_row_players_cell)
  qed
qed

theorem text_and_object_parse_alike_witness:
  "py_str sample_lib players_value_1 = players_text_1
   \<and> players_text_1_compact \<noteq> players_text_1
   \<and> decode_players sample_lib players_text_1_compact
       = decode_players sample_lib (py_str sample_lib players_value_1)
   \<and> parse_match_row sample_lib ((sample_row 1001 PNone)(''players'' \<mapsto> PStr players_text_1))
       = Inr (sample_match ''1001'' [sample_player ''101'' ''Alice'' 2 1])
   \<and> parse_match_row sample_lib
         ((sample_row 1001 PNone)(''players'' \<mapsto> PStr players_text_1_compact))
       = Inr (sample_match ''1001'' [sample_player ''101'' ''Alice'' 2 1])
   \<and> parse_match_row sample_lib ((sample_row 1001 PNone)(''players'' \<mapsto> players_value_1))
       = Inr (sample_match ''1001'' [sample_player ''101'' ''Alice'' 2 1])"
proof -
  have str_d: "py_str sample_lib players_value_1 = players_text_1"
    by (simp add: sample_lib_def sample_repr_def py_str_def players_value_1_def)
  have other: "players_text_1_compact \<noteq> players_text_1"
    by (simp add: players_text_1_compact_def players_text_1_def)
  have same: "decode_players sample_lib players_text_1_compact
       = decode_players sample_lib (py_str sample_lib players_value_1)"
    unfolding str_d
    by (simp add: decode_players_def sample_lib_def sample_literal_eval_def
        players_text_1_compact_def players_text_1_def)
  have cell: "(sample_row 1001 PNone)(''players'' \<mapsto> PStr players_text_1)
      = sample_row 1001 (PStr players_text_1)"
    by (simp add: sample_row_def)
  note both = text_and_object_parse_alike
      [of sample_lib "sample_row 1001 PNone" players_value_1 players_text_1_compact]
  have printed: "parse_match_row sample_lib
        ((sample_row 1001 PNone)(''players'' \<mapsto> PStr players_text_1))
      = parse_match_row sample_lib ((sample_row 1001 PNone)(''players'' \<mapsto> players_value_1))"
    using both by (simp only: str_d)
  have compact: "parse_match_row sample_lib
        ((sample_row 1001 PNone)(''players'' \<mapsto> PStr players_text_1_compact))
      = parse_match_row sample_lib ((sample_row 1001 PNone)(''players'' \<mapsto> players_value_1))"
    using both same by blast
  have first: "parse_match_row sample_lib
        ((sample_row 1001 PNone)(''players'' \<mapsto> PStr players_text_1))
      = Inr (sample_match ''1001'' [sample_player ''101'' ''Alice'' 2 1])"
    by (simp only: cell sample_row_1)
  show ?thesis
    using str_d other same first printed compact by (simp only: simp_thms)
qed

text \<open>
  Claim C10 fails when it is read for every text that decodes to the object, for an
  object that holds the float infinity. The text
  \<^verbatim>\<open>{'3439844': {'101': {'rating': 1e999}}}\<close> decodes to it and the row parses to a
  match; the object itself is printed with \<^verbatim>\<open>inf\<close>, which \<^verbatim>\<open>ast.literal_eval\<close>
  rejects, and the row raises ValueError.
\<close>

theorem text_and_object_differ_at_infinity:
  "literal_eval sample_lib players_text_inf = Inr players_value_inf
   \<and> parse_match_row sample_lib (sample_row 1001 (PStr players_text_inf))
       = Inr (sample_match ''1001'' [(sample_player ''101'' ''Unknown'' 0 0)\<lparr>rating := Float_inf\<rparr>])
   \<and> py_str sample_lib players_value_inf = players_repr_inf
   \<and> parse_match_row sample_lib (sample_row 1001 players_value_inf) = Inl ValueError"
  by (simp add: sample_eval)

end
